theory Spec2Isabelle
  imports Complex_Main "HOL-Library.AList" "HOL-Library.Log_Nat"
begin

section \<open>Data model\<close>

text \<open>
  Prices are Python/numpy floats (binary64) in the source; they are modelled as \<open>real\<close>.
  In the ratio checks of the detector, where a quotient of price differences is compared
  with constant bounds, every operation is the binary64 one (section on binary64
  arithmetic below); elsewhere the arithmetic is the exact one the floating-point code
  approximates.
  Timestamps (pandas index values, \<open>datetime\<close> objects) are integers (seconds).
  Pivot kinds and directions are the strings the source uses: \<open>'high'\<close>, \<open>'low'\<close>,
  \<open>'bearish'\<close>, \<open>'bullish'\<close>.
\<close>

record candle =
  timestamp :: int
  c_open :: real
  high :: real
  low :: real
  close :: real
  volume :: real

text \<open>A pivot is the dict \<open>{'index', 'price', 'type', 'timestamp'}\<close> of \<open>_find_pivots\<close>.\<close>

record pivot =
  pv_index :: nat
  pv_price :: real
  pv_type :: string
  pv_timestamp :: int

text \<open>The dict \<open>pattern['points']\<close> with its five keys.\<close>

record points =
  pt_X :: pivot
  pt_A :: pivot
  pt_B :: pivot
  pt_C :: pivot
  pt_D :: pivot

text \<open>The pattern dict built by \<open>_find_butterfly_patterns\<close>; \<open>ratios\<close> is a dict with
  optional keys.\<close>

record pattern =
  pat_type :: string
  pat_points :: points
  pat_ratios :: "string \<rightharpoonup> real"
  pat_confidence :: real
  pat_direction :: string
  pat_completion_time :: int

section \<open>Binary64 arithmetic\<close>

text \<open>
  A float is the real number it denotes. \<open>fl\<close> rounds a real to the nearest number with a
  53-bit significand, ties to the even significand, as IEEE 754 binary64 does in its normal
  range; a decimal literal \<open>c\<close> of the source is \<open>fl c\<close>, and \<open>a + b\<close>, \<open>a - b\<close>,
  \<open>a / b\<close> on floats are \<open>fadd\<close>, \<open>fsub\<close>, \<open>fdiv\<close>. \<open>abs\<close> and comparisons are exact.
  The exponent range is not bounded: the prices are finite and far from the ends of the
  binary64 range, so no difference of two prices overflows; a quotient beyond the
  binary64 range (where the source has \<open>inf\<close>, a subnormal or zero) is outside every band
  in the model as in the source, only its stored value differs.
\<close>

definition pow2 :: "int \<Rightarrow> real" where
  "pow2 e = (if e \<ge> 0 then 2 ^ nat e else 1 / 2 ^ nat (- e))"

text \<open>The exponent \<open>e\<close> of a positive real: \<open>2^e \<le> x < 2^(e+1)\<close>.\<close>

definition exponent :: "real \<Rightarrow> int" where
  "exponent x = (if x \<ge> 1 then bitlen \<lfloor>x\<rfloor> - 1 else - bitlen (\<lceil>1 / x\<rceil> - 1))"

definition round_half_even :: "real \<Rightarrow> int" where
  "round_half_even m =
     (let f = \<lfloor>m\<rfloor>; r = m - of_int f
      in if r < 1 / 2 then f else if r > 1 / 2 then f + 1 else if even f then f else f + 1)"

definition fl :: "real \<Rightarrow> real" where
  "fl x = (if x = 0 then 0
           else (let ulp = pow2 (exponent \<bar>x\<bar> - 52)
                 in sgn x * of_int (round_half_even (\<bar>x\<bar> / ulp)) * ulp))"

definition fadd :: "real \<Rightarrow> real \<Rightarrow> real" where
  "fadd a b = fl (a + b)"

definition fsub :: "real \<Rightarrow> real \<Rightarrow> real" where
  "fsub a b = fl (a - b)"

definition fdiv :: "real \<Rightarrow> real \<Rightarrow> real" where
  "fdiv a b = fl (a / b)"

section \<open>patterns/harmonic\_detector.py\<close>

definition tolerance :: real where
  "tolerance = fl 0.05"

text \<open>
  \<open>_find_pivots\<close>: the loop \<open>for i in range(window, len(df) - window)\<close> appends, for each
  bar, first the high pivot and then the low pivot; the list is then sorted by index with
  Python's stable sort. \<open>range\<close> is empty when \<open>len(df) - window \<le> window\<close>, which the
  truncated subtraction on \<open>nat\<close> reproduces. Inside the range \<open>i - j\<close> and \<open>i + j\<close>
  are valid indices, so no read is out of range.
\<close>

definition pivots_at :: "candle list \<Rightarrow> nat \<Rightarrow> nat \<Rightarrow> pivot list" where
  "pivots_at df window i =
     (let highs = map high df; lows = map low df in
      (if list_all (\<lambda>j. highs ! i \<ge> highs ! (i - j)) [1..<window + 1] \<and>
          list_all (\<lambda>j. highs ! i \<ge> highs ! (i + j)) [1..<window + 1]
       then [\<lparr>pv_index = i, pv_price = highs ! i, pv_type = ''high'',
              pv_timestamp = timestamp (df ! i)\<rparr>]
       else []) @
      (if list_all (\<lambda>j. lows ! i \<le> lows ! (i - j)) [1..<window + 1] \<and>
          list_all (\<lambda>j. lows ! i \<le> lows ! (i + j)) [1..<window + 1]
       then [\<lparr>pv_index = i, pv_price = lows ! i, pv_type = ''low'',
              pv_timestamp = timestamp (df ! i)\<rparr>]
       else []))"

definition find_pivots :: "candle list \<Rightarrow> nat \<Rightarrow> pivot list" where
  "find_pivots df window =
     sort_key pv_index (concat (map (pivots_at df window) [window..<length df - window]))"

text \<open>\<open>_is_valid_sequence\<close>: the list of kinds equals one of the two templates.\<close>

definition is_valid_sequence :: "pivot list \<Rightarrow> bool" where
  "is_valid_sequence pts =
     (let types = map pv_type pts;
          bullish_pattern = [''low'', ''high'', ''low'', ''high'', ''low''];
          bearish_pattern = [''high'', ''low'', ''high'', ''low'', ''high'']
      in types = bullish_pattern \<or> types = bearish_pattern)"

text \<open>\<open>_calculate_ratios\<close>: a ratio is stored only under its non-zero denominator. The
  differences and the quotients are float operations.\<close>

definition calculate_ratios ::
  "pivot \<Rightarrow> pivot \<Rightarrow> pivot \<Rightarrow> pivot \<Rightarrow> pivot \<Rightarrow> (string \<rightharpoonup> real)" where
  "calculate_ratios x a b c d =
     (let xa = \<bar>fsub (pv_price a) (pv_price x)\<bar>;
          ab = \<bar>fsub (pv_price b) (pv_price a)\<bar>;
          bc = \<bar>fsub (pv_price c) (pv_price b)\<bar>;
          cd = \<bar>fsub (pv_price d) (pv_price c)\<bar>;
          ad = \<bar>fsub (pv_price d) (pv_price a)\<bar>;
          r0 = Map.empty;
          r1 = (if xa \<noteq> 0 then r0(''AB_XA'' \<mapsto> fdiv ab xa, ''AD_XA'' \<mapsto> fdiv ad xa) else r0);
          r2 = (if ab \<noteq> 0 then r1(''BC_AB'' \<mapsto> fdiv bc ab) else r1);
          r3 = (if bc \<noteq> 0 then r2(''CD_BC'' \<mapsto> fdiv cd bc) else r2)
      in r3)"

definition is_ratio_valid :: "real \<Rightarrow> real \<Rightarrow> real \<Rightarrow> bool" where
  "is_ratio_valid actual expected tol = (\<bar>fsub actual expected\<bar> \<le> tol)"

text \<open>\<open>_is_butterfly_pattern\<close>: \<open>checks\<close> collects one boolean per ratio present;
  \<open>sum(checks) >= 3\<close> counts the true ones. The bounds \<open>0.382 - self.tolerance\<close> and the
  like are float differences and sums of float literals.\<close>

definition butterfly_checks :: "(string \<rightharpoonup> real) \<Rightarrow> bool list" where
  "butterfly_checks ratios =
     (case ratios ''AB_XA'' of None \<Rightarrow> []
        | Some ab_xa \<Rightarrow> [is_ratio_valid ab_xa (fl 0.786) tolerance]) @
     (case ratios ''BC_AB'' of None \<Rightarrow> []
        | Some bc_ab \<Rightarrow> [fsub (fl 0.382) tolerance \<le> bc_ab \<and>
                         bc_ab \<le> fadd (fl 0.886) tolerance]) @
     (case ratios ''CD_BC'' of None \<Rightarrow> []
        | Some cd_bc \<Rightarrow> [fsub (fl 1.618) tolerance \<le> cd_bc \<and>
                         cd_bc \<le> fadd (fl 2.618) tolerance]) @
     (case ratios ''AD_XA'' of None \<Rightarrow> []
        | Some ad_xa \<Rightarrow> [fsub (fl 1.27) tolerance \<le> ad_xa \<and>
                         ad_xa \<le> fadd (fl 1.618) tolerance])"

definition is_butterfly_pattern :: "(string \<rightharpoonup> real) \<Rightarrow> bool" where
  "is_butterfly_pattern ratios = (length (filter id (butterfly_checks ratios)) \<ge> 3)"

text \<open>\<open>_calculate_confidence\<close>: one score per ratio present, then \<open>np.mean\<close>, or 0 for
  an empty score list. Python's \<open>min\<close> over the five distances is \<open>Min\<close> over a non-empty
  finite set.\<close>

definition fib_levels_conf :: "real list" where
  "fib_levels_conf = [0.382, 0.5, 0.618, 0.786, 0.886]"

definition confidence_scores :: "(string \<rightharpoonup> real) \<Rightarrow> real list" where
  "confidence_scores ratios =
     (case ratios ''AB_XA'' of None \<Rightarrow> []
        | Some ab_xa \<Rightarrow> [max 0 (100 - \<bar>ab_xa - 0.786\<bar> * 100)]) @
     (case ratios ''BC_AB'' of None \<Rightarrow> []
        | Some bc_ab \<Rightarrow>
            (let min_distance = Min (set (map (\<lambda>level. \<bar>bc_ab - level\<bar>) fib_levels_conf))
             in [max 0 (100 - min_distance * 100)])) @
     (case ratios ''CD_BC'' of None \<Rightarrow> []
        | Some cd_bc \<Rightarrow>
            (let target = (if cd_bc > 2.0 then 2.618 else 1.618)
             in [max 0 (100 - \<bar>cd_bc - target\<bar> * 50)])) @
     (case ratios ''AD_XA'' of None \<Rightarrow> []
        | Some ad_xa \<Rightarrow>
            (let target = (if ad_xa > 1.4 then 1.618 else 1.27)
             in [max 0 (100 - \<bar>ad_xa - target\<bar> * 100)]))"

definition mean :: "real list \<Rightarrow> real" where
  "mean xs = sum_list xs / real (length xs)"

definition calculate_confidence :: "(string \<rightharpoonup> real) \<Rightarrow> real" where
  "calculate_confidence ratios =
     (let scores = confidence_scores ratios in if scores \<noteq> [] then mean scores else 0)"

text \<open>\<open>_find_butterfly_patterns\<close>: the loop over \<open>range(len(pivots) - 4)\<close> slides a window
  of five consecutive pivots; a window that fails a test is skipped.\<close>

definition make_pattern :: "pivot \<Rightarrow> pivot \<Rightarrow> pivot \<Rightarrow> pivot \<Rightarrow> pivot \<Rightarrow> (string \<rightharpoonup> real) \<Rightarrow> pattern" where
  "make_pattern x a b c d ratios =
     \<lparr>pat_type = ''butterfly'',
      pat_points = \<lparr>pt_X = x, pt_A = a, pt_B = b, pt_C = c, pt_D = d\<rparr>,
      pat_ratios = ratios,
      pat_confidence = calculate_confidence ratios,
      pat_direction = (if pv_type d = ''high'' then ''bearish'' else ''bullish''),
      pat_completion_time = pv_timestamp d\<rparr>"

fun find_butterfly_patterns :: "pivot list \<Rightarrow> pattern list" where
  "find_butterfly_patterns (x # a # b # c # d # rest) =
     (if \<not> is_valid_sequence [x, a, b, c, d] then []
      else (let ratios = calculate_ratios x a b c d
            in if is_butterfly_pattern ratios then [make_pattern x a b c d ratios] else []))
     @ find_butterfly_patterns (a # b # c # d # rest)"
| "find_butterfly_patterns _ = []"

definition detect_patterns :: "candle list \<Rightarrow> pattern list" where
  "detect_patterns df =
     (if length df < 50 then []
      else (let pivots = find_pivots df 5
            in if length pivots < 5 then [] else find_butterfly_patterns pivots))"

section \<open>patterns/zone\_manager.py\<close>

text \<open>Exceptions of the source that the model keeps as values.\<close>

datatype error = KeyError | IndexError

text \<open>An entry or rebound zone: the dict \<open>{'upper', 'lower', 'is_active'}\<close>.\<close>

record zone =
  z_upper :: real
  z_lower :: real
  z_is_active :: bool

text \<open>
  The zones dict. Its keys \<open>fib_236\<close> ... \<open>fib_1000\<close> are kept as a dict of their own
  (\<open>zn_fib\<close>); the keys the consumers read with \<open>.get\<close> are optional. The pattern id
  \<open>f"{type}_{timestamp}"\<close> is kept as its two components.
\<close>

record zones =
  zn_pattern_id :: "string \<times> int"
  zn_direction :: "string option"
  zn_base_price :: real
  zn_target_price :: real
  zn_fib :: "string \<rightharpoonup> real"
  zn_entry_zone :: "zone option"
  zn_rebound_zone :: "zone option"

text \<open>The list \<open>fib_levels\<close> of \<open>create_fibonacci_zones\<close>, each level with the key
  \<open>f'fib_{int(level*1000)}'\<close> it is stored under.\<close>

definition fib_levels :: "(string \<times> real) list" where
  "fib_levels =
     [(''fib_236'', 0.236), (''fib_382'', 0.382), (''fib_500'', 0.5), (''fib_618'', 0.618),
      (''fib_786'', 0.786), (''fib_886'', 0.886), (''fib_1000'', 1.0)]"

definition price_level :: "pattern \<Rightarrow> real \<Rightarrow> real \<Rightarrow> real" where
  "price_level pat dc_distance level =
     (if pat_direction pat = ''bearish''
      then pv_price (pt_D (pat_points pat)) - dc_distance * level
      else pv_price (pt_D (pat_points pat)) + dc_distance * level)"

text \<open>\<open>create_fibonacci_zones\<close>; \<open>zones['fib_886']\<close> is a plain subscript, so a missing
  key is a \<open>KeyError\<close>.\<close>

definition create_fibonacci_zones :: "pattern \<Rightarrow> error + zones" where
  "create_fibonacci_zones pat =
     (let d_point = pt_D (pat_points pat);
          c_point = pt_C (pat_points pat);
          dc_distance = \<bar>pv_price d_point - pv_price c_point\<bar>;
          fibs = foldl (\<lambda>m (key, level). m(key \<mapsto> price_level pat dc_distance level))
                   Map.empty fib_levels
      in case fibs ''fib_886'' of
           None \<Rightarrow> Inl KeyError
         | Some fib_886 \<Rightarrow>
             Inr \<lparr>zn_pattern_id = (pat_type pat, pv_timestamp d_point),
                  zn_direction = Some (pat_direction pat),
                  zn_base_price = pv_price d_point,
                  zn_target_price = pv_price c_point,
                  zn_fib = fibs,
                  zn_entry_zone = Some \<lparr>z_upper = max (pv_price d_point) fib_886,
                                         z_lower = min (pv_price d_point) fib_886,
                                         z_is_active = True\<rparr>,
                  zn_rebound_zone = Some \<lparr>z_upper = max fib_886 (pv_price c_point),
                                           z_lower = min fib_886 (pv_price c_point),
                                           z_is_active = True\<rparr>\<rparr>)"

text \<open>A trendline point: the dict \<open>{'timestamp', 'price', 'index'}\<close>.\<close>

record tl_point =
  tl_timestamp :: int
  tl_price :: real
  tl_index :: nat

definition tl_point_of :: "pivot \<Rightarrow> tl_point" where
  "tl_point_of p = \<lparr>tl_timestamp = pv_timestamp p, tl_price = pv_price p, tl_index = pv_index p\<rparr>"

text \<open>The loop \<open>for point_name in ['X', 'B', 'D']\<close> of both trendline builders: the points
  of the wanted kind, in that order.\<close>

definition collect_trendline_points :: "pattern \<Rightarrow> tl_point list" where
  "collect_trendline_points pat =
     (let pts = pat_points pat;
          wanted = (if pat_direction pat = ''bearish'' then ''high'' else ''low'')
      in map tl_point_of (filter (\<lambda>p. pv_type p = wanted) [pt_X pts, pt_B pts, pt_D pts]))"

text \<open>\<open>_calculate_trendline_slope\<close>: least squares over (index, price).\<close>

definition calculate_trendline_slope :: "tl_point list \<Rightarrow> real" where
  "calculate_trendline_slope pts =
     (if length pts < 2 then 0
      else (let x_values = map (\<lambda>p. real (tl_index p)) pts;
                y_values = map tl_price pts;
                n = real (length pts);
                sum_x = sum_list x_values;
                sum_y = sum_list y_values;
                sum_xy = sum_list (map (\<lambda>(x, y). x * y) (zip x_values y_values));
                sum_x2 = sum_list (map (\<lambda>x. x * x) x_values)
            in if n * sum_x2 - sum_x * sum_x = 0 then 0
               else (n * sum_xy - sum_x * sum_y) / (n * sum_x2 - sum_x * sum_x)))"

record trendline_zone =
  tz_slope :: real
  tz_last_point :: tl_point
  tz_projected_price :: real
  tz_touches :: nat
  tz_is_valid :: bool

text \<open>\<open>create_trendline_zones\<close>; \<open>None\<close> is the source's \<open>return None\<close>.
  \<open>len(df) - 1\<close> is an integer that may be \<open>-1\<close>.\<close>

definition create_trendline_zones :: "candle list \<Rightarrow> pattern \<Rightarrow> trendline_zone option" where
  "create_trendline_zones df pat =
     (let trendline_points = collect_trendline_points pat
      in if length trendline_points \<ge> 2
         then (let slope = calculate_trendline_slope trendline_points;
                   last_point = last trendline_points;
                   current_index = int (length df) - 1;
                   projected_price =
                     tl_price last_point + slope * real_of_int (current_index - int (tl_index last_point))
               in Some \<lparr>tz_slope = slope,
                         tz_last_point = last_point,
                         tz_projected_price = projected_price,
                         tz_touches = length trendline_points,
                         tz_is_valid = (length trendline_points \<ge> 3)\<rparr>)
         else None)"


section \<open>trading/confirmation\_system.py\<close>

text \<open>Python truthiness of an optional float and of an optional string.\<close>

definition truthy_real :: "real option \<Rightarrow> bool" where
  "truthy_real v = (case v of None \<Rightarrow> False | Some x \<Rightarrow> x \<noteq> 0)"

definition truthy_str :: "string option \<Rightarrow> bool" where
  "truthy_str v = (case v of None \<Rightarrow> False | Some x \<Rightarrow> x \<noteq> [])"

record candle_conf =
  cc_confirmed :: bool
  cc_close_price :: "real option"

text \<open>\<open>_check_5m_candle_confirmation\<close>; \<open>df_5m.iloc[-1]\<close> is read behind the length
  test.\<close>

definition check_5m_candle_confirmation :: "candle list \<Rightarrow> zones \<Rightarrow> candle_conf" where
  "check_5m_candle_confirmation df_5m zs =
     (if length df_5m < 2 then \<lparr>cc_confirmed = False, cc_close_price = None\<rparr>
      else (let last_candle = last df_5m;
                fib_886 = zn_fib zs ''fib_886'';
                direction = zn_direction zs
            in if \<not> truthy_real fib_886 \<or> \<not> truthy_str direction
               then \<lparr>cc_confirmed = False, cc_close_price = None\<rparr>
               else (case fib_886 of
                       None \<Rightarrow> \<lparr>cc_confirmed = False, cc_close_price = None\<rparr>
                     | Some f \<Rightarrow>
                         \<lparr>cc_confirmed = (if direction = Some ''bearish'' then close last_candle < f
                                          else close last_candle > f),
                          cc_close_price = Some (close last_candle)\<rparr>)))"

text \<open>\<open>_calculate_trendline_equation\<close>.\<close>

definition calculate_trendline_equation :: "tl_point list \<Rightarrow> real \<times> real" where
  "calculate_trendline_equation pts =
     (let x_values = map (\<lambda>p. real (tl_index p)) pts;
          y_values = map tl_price pts;
          n = real (length pts);
          sum_x = sum_list x_values;
          sum_y = sum_list y_values;
          sum_xy = sum_list (map (\<lambda>(x, y). x * y) (zip x_values y_values));
          sum_x2 = sum_list (map (\<lambda>x. x * x) x_values)
      in if n * sum_x2 - sum_x * sum_x = 0 then (0, sum_y / n)
         else (let slope = (n * sum_xy - sum_x * sum_y) / (n * sum_x2 - sum_x * sum_x);
                   intercept = (sum_y - slope * sum_x) / n
               in (slope, intercept)))"

text \<open>
  \<open>_count_trendline_touches\<close>. The operands are numpy floats: a division by a zero
  trendline price yields \<open>inf\<close> or \<open>nan\<close>, and the comparison with the tolerance is then
  false, so a bar with a zero trendline price is never a touch.
\<close>

definition count_trendline_touches :: "candle list \<Rightarrow> real \<Rightarrow> real \<Rightarrow> string \<Rightarrow> real \<Rightarrow> nat" where
  "count_trendline_touches df slope intercept direction tol =
     length (filter (\<lambda>i.
        let trendline_price = slope * real i + intercept;
            candle = df ! i
        in if direction = ''bearish''
           then trendline_price \<noteq> 0 \<and> \<bar>high candle - trendline_price\<bar> / trendline_price \<le> tol
           else trendline_price \<noteq> 0 \<and> \<bar>low candle - trendline_price\<bar> / trendline_price \<le> tol)
       [0..<length df])"

record trendline_data =
  td_slope :: real
  td_intercept :: real
  td_touches :: nat
  td_current_price :: real
  td_points :: "tl_point list"

text \<open>\<open>_build_trendline\<close>.\<close>

definition build_trendline :: "candle list \<Rightarrow> pattern \<Rightarrow> trendline_data option" where
  "build_trendline df pat =
     (let direction = pat_direction pat;
          trendline_points = collect_trendline_points pat
      in if length trendline_points < 2 then None
         else (case calculate_trendline_equation trendline_points of
                 (slope, intercept) \<Rightarrow>
                   (let current_index = int (length df) - 1;
                        current_trendline_price = slope * real_of_int current_index + intercept;
                        total_touches = count_trendline_touches df slope intercept direction 0.002
                    in Some \<lparr>td_slope = slope, td_intercept = intercept,
                              td_touches = total_touches,
                              td_current_price = current_trendline_price,
                              td_points = trendline_points\<rparr>)))"

text \<open>\<open>_check_trendline_break\<close>.\<close>

definition check_trendline_break :: "candle list \<Rightarrow> trendline_data \<Rightarrow> string \<Rightarrow> bool" where
  "check_trendline_break df_5m td direction =
     (if length df_5m < 1 then False
      else (let last_candle = last df_5m;
                current_trendline_price = td_current_price td
            in if direction = ''bearish'' then close last_candle > current_trendline_price
               else close last_candle < current_trendline_price))"

text \<open>\<open>_check_trendline_confirmation\<close>, its \<open>break_confirmed\<close> entry.\<close>

definition check_trendline_confirmation ::
  "candle list \<Rightarrow> candle list \<Rightarrow> pattern \<Rightarrow> zones \<Rightarrow> bool" where
  "check_trendline_confirmation df_1h df_5m pat zs =
     (case build_trendline df_1h pat of
        None \<Rightarrow> False
      | Some td \<Rightarrow>
          if td_touches td < 3 then False
          else check_trendline_break df_5m td (pat_direction pat))"

text \<open>\<open>_check_zone_break_confirmation\<close>, its \<open>zone_broken\<close> entry. A zone dict is never
  empty, so \<open>not entry_zone\<close> holds exactly when the key is missing.\<close>

definition check_zone_break_confirmation :: "candle list \<Rightarrow> zones \<Rightarrow> bool" where
  "check_zone_break_confirmation df_5m zs =
     (if length df_5m < 1 then False
      else (let last_candle = last df_5m;
                direction = zn_direction zs
            in case zn_entry_zone zs of
                 None \<Rightarrow> False
               | Some entry_zone \<Rightarrow>
                   if \<not> truthy_str direction then False
                   else if direction = Some ''bearish'' then close last_candle < z_lower entry_zone
                   else close last_candle > z_upper entry_zone))"

record confirmations =
  candle_5m_confirmation :: bool
  trendline_break :: bool
  zone_break :: bool
  total_score :: nat
  entry_signal :: bool
  entry_direction :: "string option"
  entry_price :: "real option"

text \<open>
  \<open>check_entry_confirmations\<close>, statement by statement. The last read
  \<open>df_5m.iloc[-1]\<close> has no length test in front of it: on an empty series it is an
  \<open>IndexError\<close>.
\<close>

definition check_entry_confirmations ::
  "candle list \<Rightarrow> candle list \<Rightarrow> pattern \<Rightarrow> zones \<Rightarrow> error + confirmations" where
  "check_entry_confirmations df_1h df_5m pat zs =
     (let c0 = \<lparr>candle_5m_confirmation = False, trendline_break = False, zone_break = False,
                total_score = 0, entry_signal = False, entry_direction = None,
                entry_price = None\<rparr>;
          candle_conf = check_5m_candle_confirmation df_5m zs;
          c1 = c0\<lparr>candle_5m_confirmation := cc_confirmed candle_conf\<rparr>;
          c2 = (if cc_confirmed candle_conf
                then c1\<lparr>total_score := total_score c1 + 1,
                        entry_price := cc_close_price candle_conf\<rparr>
                else c1);
          trendline_conf = check_trendline_confirmation df_1h df_5m pat zs;
          c3 = c2\<lparr>trendline_break := trendline_conf\<rparr>;
          c4 = (if trendline_conf then c3\<lparr>total_score := total_score c3 + 1\<rparr> else c3);
          zone_conf = check_zone_break_confirmation df_5m zs;
          c5 = c4\<lparr>zone_break := zone_conf\<rparr>;
          c6 = (if zone_conf then c5\<lparr>total_score := total_score c5 + 1\<rparr> else c5)
      in if total_score c6 \<ge> 3
         then (let c7 = c6\<lparr>entry_signal := True,
                            entry_direction :=
                              Some (if pat_direction pat = ''bearish'' then ''SELL'' else ''BUY'')\<rparr>
               in if \<not> truthy_real (entry_price c7)
                  then (if df_5m = [] then Inl IndexError
                        else Inr (c7\<lparr>entry_price := Some (close (last df_5m))\<rparr>))
                  else Inr c7)
         else Inr c6)"

section \<open>trading/position\_manager.py\<close>

text \<open>
  The venue (\<open>ExchangeConnector\<close>) and the notifier are outside the core. Every call the
  position manager makes to them is appended to a trace of calls, and what a call
  returns is a parameter: a function of the trace so far and of the call's arguments,
  so two calls with the same arguments may be answered differently. Every method of
  \<open>ExchangeConnector\<close> catches its own exceptions and returns \<open>None\<close>, \<open>0\<close>, \<open>[]\<close> or
  \<open>False\<close>, and the notifier catches its own too, so none of these calls raises.
  Calls to the logger are left out.
\<close>

text \<open>An order dict as the venue returns it; only its \<open>'id'\<close> is read, \<open>None\<close> standing
  for a dict without that key. An order dict is never empty, so it is truthy.\<close>

record order =
  o_id :: "string option"

text \<open>The \<open>reason\<close> string of a trade-exit notification: \<open>f"Take Profit {level} atteint"\<close>,
  \<open>"Stop Loss atteint"\<close>, or the text given to a forced close.\<close>

datatype exit_reason = TakeProfitReached nat | StopLossReached | OtherReason string

datatype call =
    GetCurrentPrice string
  | GetOpenOrders string
  | CancelOrder "string option" string
  | PlaceMarketOrder string string real
  | PlaceLimitOrder string string real real
  | PlaceStopLossOrder string string real real
  | GetAvailableBalance string
  | CalculatePositionSize string real "real option" real
  | Now
  | NotifyTradeEntry string "string option" real real real "real option"
  | NotifyTradeExit string "string option" real real real real exit_reason
  | NotifyError string

record venue =
  v_get_current_price :: "call list \<Rightarrow> string \<Rightarrow> real"
  v_get_open_orders :: "call list \<Rightarrow> string \<Rightarrow> order list"
  v_place_market_order :: "call list \<Rightarrow> string \<Rightarrow> string \<Rightarrow> real \<Rightarrow> order option"
  v_place_limit_order :: "call list \<Rightarrow> string \<Rightarrow> string \<Rightarrow> real \<Rightarrow> real \<Rightarrow> order option"
  v_place_stop_loss_order :: "call list \<Rightarrow> string \<Rightarrow> string \<Rightarrow> real \<Rightarrow> real \<Rightarrow> order option"
  v_get_available_balance :: "call list \<Rightarrow> string \<Rightarrow> real"
  v_calculate_position_size :: "call list \<Rightarrow> string \<Rightarrow> real \<Rightarrow> real \<Rightarrow> real \<Rightarrow> real"
  v_now :: "call list \<Rightarrow> int"
  v_strftime :: "int \<Rightarrow> string"

text \<open>The values of \<open>Config\<close> the core reads.\<close>

record config =
  cfg_symbol :: string
  cfg_max_positions :: int
  cfg_risk_percentage :: real

text \<open>A take-profit leg: the dict appended to \<open>position['tp_orders']\<close>. The key
  \<open>'executed'\<close> is absent until the leg is filled and is read with
  \<open>.get('executed', False)\<close>.\<close>

record tp_order =
  tpo_order_id :: "string option"
  tpo_price :: real
  tpo_size :: real
  tpo_level :: nat
  tpo_executed :: bool
  tpo_execution_price :: "real option"

record position =
  pos_id :: string
  pos_symbol :: string
  pos_direction :: "string option"
  pos_entry_price :: real
  pos_position_size :: real
  pos_stop_loss :: real
  pos_take_profits :: "real list"
  pos_entry_time :: int
  pos_pattern :: pattern
  pos_zones :: zones
  pos_status :: string
  pos_close_reason :: "string option"
  pos_close_time :: "int option"
  pos_entry_order_id :: "string option"
  pos_stop_order_id :: "string option"
  pos_tp_orders :: "tp_order list"

text \<open>The state of a \<open>PositionManager\<close>: the dict \<open>active_positions\<close> in insertion order,
  and the trace of calls made so far.\<close>

record pm_state =
  active_positions :: "(string \<times> position) list"
  calls :: "call list"

text \<open>\<open>_calculate_stop_loss\<close>.\<close>

definition calculate_stop_loss :: "pattern \<Rightarrow> zones \<Rightarrow> real" where
  "calculate_stop_loss pat zs =
     (let d_point = pt_D (pat_points pat);
          direction = pat_direction pat;
          buffer = pv_price d_point * 0.0005
      in if direction = ''bearish'' then pv_price d_point + buffer
         else pv_price d_point - buffer)"

text \<open>\<open>_calculate_take_profits\<close>. \<open>sort(reverse=True)\<close> on floats is the ascending sort
  reversed.\<close>

definition calculate_take_profits :: "pattern \<Rightarrow> zones \<Rightarrow> real list" where
  "calculate_take_profits pat zs =
     (let fib_levels = [''fib_618'', ''fib_500'', ''fib_382''];
          fib_targets = concat (map (\<lambda>level. case zn_fib zs level of None \<Rightarrow> []
                                                  | Some v \<Rightarrow> [v]) fib_levels);
          c_point = pt_C (pat_points pat);
          targets = fib_targets @ [pv_price c_point];
          sorted_targets = (if pat_direction pat = ''bearish'' then sort targets
                            else rev (sort targets))
      in take 3 sorted_targets)"

text \<open>
  \<open>_calculate_position_size\<close>, with \<open>calculate_risk_amount\<close> of the connector. The entry
  price comes from the confirmations and may be \<open>None\<close>: the connector is called all the
  same, its \<open>abs(entry_price - stop_loss)\<close> fails on \<open>None\<close> inside its own \<open>try\<close> block
  and it returns 0 (both connectors do), so 0 is the answer to that call.
\<close>

definition calculate_position_size ::
  "venue \<Rightarrow> config \<Rightarrow> real option \<Rightarrow> real \<Rightarrow> call list \<Rightarrow> real \<times> call list" where
  "calculate_position_size v cfg entry stop_loss tr =
     (let total_balance = v_get_available_balance v tr ''USDT'';
          tr1 = tr @ [GetAvailableBalance ''USDT''];
          risk_amount = total_balance * (cfg_risk_percentage cfg / 100);
          position_size = (case entry of
                             None \<Rightarrow> 0
                           | Some price \<Rightarrow>
                               v_calculate_position_size v tr1 (cfg_symbol cfg) risk_amount
                                 price stop_loss);
          tr2 = tr1 @ [CalculatePositionSize (cfg_symbol cfg) risk_amount entry stop_loss]
      in (position_size, tr2))"

text \<open>\<open>_place_stop_loss\<close>.\<close>

definition place_stop_loss :: "venue \<Rightarrow> position \<Rightarrow> call list \<Rightarrow> position \<times> call list" where
  "place_stop_loss v pos tr =
     (let symbol = pos_symbol pos;
          size = pos_position_size pos;
          stop_price = pos_stop_loss pos;
          stop_side = (if pos_direction pos = Some ''BUY'' then ''sell'' else ''buy'');
          stop_order = v_place_stop_loss_order v tr symbol stop_side size stop_price;
          tr1 = tr @ [PlaceStopLossOrder symbol stop_side size stop_price]
      in case stop_order of
           None \<Rightarrow> (pos, tr1)
         | Some ord \<Rightarrow> (pos\<lparr>pos_stop_order_id := o_id ord\<rparr>, tr1))"

text \<open>\<open>_place_take_profits\<close>: the loop over \<open>enumerate(take_profits)\<close>, then the function.
  With an empty list the division \<open>total_size / len(take_profits)\<close> fails (or yields
  \<open>inf\<close> on a numpy float) and no order is placed either way.\<close>

fun place_tp_loop ::
  "venue \<Rightarrow> string \<Rightarrow> string \<Rightarrow> real \<Rightarrow> (nat \<times> real) list \<Rightarrow> tp_order list \<Rightarrow> call list
     \<Rightarrow> tp_order list \<times> call list" where
  "place_tp_loop v symbol tp_side tp_size [] legs tr = (legs, tr)"
| "place_tp_loop v symbol tp_side tp_size ((i, tp_price) # rest) legs tr =
     (let tp_order = v_place_limit_order v tr symbol tp_side tp_size tp_price;
          tr1 = tr @ [PlaceLimitOrder symbol tp_side tp_size tp_price];
          legs1 = (case tp_order of
                     None \<Rightarrow> legs
                   | Some ord \<Rightarrow>
                       legs @ [\<lparr>tpo_order_id = o_id ord, tpo_price = tp_price, tpo_size = tp_size,
                                 tpo_level = i + 1, tpo_executed = False,
                                 tpo_execution_price = None\<rparr>])
      in place_tp_loop v symbol tp_side tp_size rest legs1 tr1)"

definition place_take_profits :: "venue \<Rightarrow> position \<Rightarrow> call list \<Rightarrow> position \<times> call list" where
  "place_take_profits v pos tr =
     (let symbol = pos_symbol pos;
          total_size = pos_position_size pos;
          take_profits = pos_take_profits pos;
          tp_side = (if pos_direction pos = Some ''BUY'' then ''sell'' else ''buy'')
      in if take_profits = [] then (pos, tr)
         else (let tp_size = total_size / real (length take_profits)
               in case place_tp_loop v symbol tp_side tp_size
                         (zip [0..<length take_profits] take_profits) (pos_tp_orders pos) tr of
                    (legs, tr1) \<Rightarrow> (pos\<lparr>pos_tp_orders := legs\<rparr>, tr1)))"

text \<open>
  \<open>execute_entry_signal\<close>. With no entry price the size is 0 and the entry is refused as
  for any size \<open>\<le> 0\<close>, so a position always has a price; the \<open>None\<close> branch after the
  size test is never taken. \<open>datetime.now()\<close> is read twice, for the id and for the entry
  time.
\<close>

definition execute_entry_signal ::
  "venue \<Rightarrow> config \<Rightarrow> pattern \<Rightarrow> zones \<Rightarrow> confirmations \<Rightarrow> pm_state \<Rightarrow> bool \<times> pm_state" where
  "execute_entry_signal v cfg pat zs conf st =
     (if \<not> entry_signal conf then (False, st)
      else
       (let symbol = cfg_symbol cfg;
            direction = entry_direction conf;
            stop_loss = calculate_stop_loss pat zs;
            take_profits = calculate_take_profits pat zs
        in case calculate_position_size v cfg (entry_price conf) stop_loss (calls st) of
             (position_size, tr1) \<Rightarrow>
               if position_size \<le> 0 then (False, st\<lparr>calls := tr1\<rparr>)
               else
                (case entry_price conf of
                   None \<Rightarrow> (False, st\<lparr>calls := tr1\<rparr>)
                 | Some price \<Rightarrow>
                    (let side = (if direction = Some ''BUY'' then ''buy'' else ''sell'');
                         entry_order = v_place_market_order v tr1 symbol side position_size;
                         tr2 = tr1 @ [PlaceMarketOrder symbol side position_size]
                     in case entry_order of
                          None \<Rightarrow> (False, st\<lparr>calls := tr2 @ [NotifyError ''ORDRE_ENTREE'']\<rparr>)
                        | Some ord \<Rightarrow>
                           (let position_id = pat_type pat @ ''_'' @ v_strftime v (v_now v tr2);
                                tr3 = tr2 @ [Now];
                                pos = \<lparr>pos_id = position_id, pos_symbol = symbol,
                                        pos_direction = direction, pos_entry_price = price,
                                        pos_position_size = position_size,
                                        pos_stop_loss = stop_loss,
                                        pos_take_profits = take_profits,
                                        pos_entry_time = v_now v tr3,
                                        pos_pattern = pat, pos_zones = zs,
                                        pos_status = ''ACTIVE'', pos_close_reason = None,
                                        pos_close_time = None,
                                        pos_entry_order_id = o_id ord,
                                        pos_stop_order_id = None, pos_tp_orders = []\<rparr>;
                                tr4 = tr3 @ [Now]
                            in case place_stop_loss v pos tr4 of
                                 (pos1, tr5) \<Rightarrow>
                                   (case place_take_profits v pos1 tr5 of
                                      (pos2, tr6) \<Rightarrow>
                                        (True,
                                         st\<lparr>active_positions :=
                                               AList.update position_id pos2 (active_positions st),
                                             calls := tr6 @
                                               [NotifyTradeEntry symbol direction price position_size
                                                  stop_loss
                                                  (if take_profits \<noteq> [] then Some (hd take_profits)
                                                   else None)]\<rparr>)))))))"

text \<open>\<open>_handle_take_profit_hit\<close>.\<close>

definition handle_take_profit_hit ::
  "position \<Rightarrow> tp_order \<Rightarrow> real \<Rightarrow> call list \<Rightarrow> tp_order \<times> call list" where
  "handle_take_profit_hit pos tp current_price tr =
     (let entry_price = pos_entry_price pos;
          tp_price = tpo_price tp;
          size = tpo_size tp;
          pnl = (if pos_direction pos = Some ''BUY'' then (tp_price - entry_price) * size
                 else (entry_price - tp_price) * size)
      in (tp\<lparr>tpo_executed := True, tpo_execution_price := Some current_price\<rparr>,
          tr @ [NotifyTradeExit (pos_symbol pos) (pos_direction pos) entry_price tp_price size pnl
                  (TakeProfitReached (tpo_level tp))]))"

text \<open>\<open>_cancel_remaining_orders\<close>: one cancel per leg not marked executed, in order, then
  one for the stop order if its id is truthy.\<close>

definition cancel_remaining_orders :: "position \<Rightarrow> call list \<Rightarrow> call list" where
  "cancel_remaining_orders pos tr =
     (let symbol = pos_symbol pos;
          tr1 = tr @ map (\<lambda>tp. CancelOrder (tpo_order_id tp) symbol)
                       (filter (\<lambda>tp. \<not> tpo_executed tp) (pos_tp_orders pos))
      in if truthy_str (pos_stop_order_id pos)
         then tr1 @ [CancelOrder (pos_stop_order_id pos) symbol]
         else tr1)"

text \<open>\<open>_handle_stop_loss_hit\<close>.\<close>

definition handle_stop_loss_hit ::
  "venue \<Rightarrow> position \<Rightarrow> real \<Rightarrow> call list \<Rightarrow> position \<times> call list" where
  "handle_stop_loss_hit v pos current_price tr =
     (let entry_price = pos_entry_price pos;
          stop_price = pos_stop_loss pos;
          size = pos_position_size pos;
          pnl = (if pos_direction pos = Some ''BUY'' then (stop_price - entry_price) * size
                 else (entry_price - stop_price) * size);
          tr1 = tr @ [NotifyTradeExit (pos_symbol pos) (pos_direction pos) entry_price stop_price
                        size pnl StopLossReached];
          pos1 = pos\<lparr>pos_status := ''CLOSED'', pos_close_reason := Some ''STOP_LOSS'',
                     pos_close_time := Some (v_now v tr1)\<rparr>;
          tr2 = tr1 @ [Now]
      in (pos1, cancel_remaining_orders pos1 tr2))"

text \<open>\<open>order_id not in open_order_ids\<close>: a leg or stop id that is \<open>None\<close> is in no list of
  ids.\<close>

definition not_in_open :: "string option \<Rightarrow> string list \<Rightarrow> bool" where
  "not_in_open order_id open_order_ids =
     (case order_id of None \<Rightarrow> True | Some i \<Rightarrow> i \<notin> set open_order_ids)"

text \<open>The loop over \<open>position['tp_orders']\<close> in \<open>_check_position_status\<close>.\<close>

fun check_take_profits ::
  "position \<Rightarrow> string list \<Rightarrow> real \<Rightarrow> tp_order list \<Rightarrow> call list \<Rightarrow> tp_order list \<times> call list" where
  "check_take_profits pos open_order_ids current_price [] tr = ([], tr)"
| "check_take_profits pos open_order_ids current_price (tp # rest) tr =
     (case (if not_in_open (tpo_order_id tp) open_order_ids
            then handle_take_profit_hit pos tp current_price tr else (tp, tr)) of
        (tp1, tr1) \<Rightarrow>
          (case check_take_profits pos open_order_ids current_price rest tr1 of
             (rest1, tr2) \<Rightarrow> (tp1 # rest1, tr2)))"

text \<open>
  \<open>_check_position_status\<close>. The comprehension \<open>[order['id'] for order in open_orders]\<close>
  raises \<open>KeyError\<close> on an order without an id, before the position is touched; the two
  queries made until then stay in the trace.
\<close>

definition check_position_status ::
  "venue \<Rightarrow> position \<Rightarrow> call list \<Rightarrow> (error + position) \<times> call list" where
  "check_position_status v pos tr =
     (let symbol = pos_symbol pos;
          current_price = v_get_current_price v tr symbol;
          tr1 = tr @ [GetCurrentPrice symbol];
          open_orders = v_get_open_orders v tr1 symbol;
          tr2 = tr1 @ [GetOpenOrders symbol]
      in if list_ex (\<lambda>ord. o_id ord = None) open_orders then (Inl KeyError, tr2)
         else
          (let open_order_ids = List.map_filter o_id open_orders
           in case check_take_profits pos open_order_ids current_price (pos_tp_orders pos) tr2 of
                (legs, tr3) \<Rightarrow>
                  (let pos1 = pos\<lparr>pos_tp_orders := legs\<rparr>
                   in if truthy_str (pos_stop_order_id pos1) \<and>
                         not_in_open (pos_stop_order_id pos1) open_order_ids
                      then (case handle_stop_loss_hit v pos1 current_price tr3 of
                              (pos2, tr4) \<Rightarrow> (Inr pos2, tr4))
                      else (Inr pos1, tr3))))"

text \<open>
  \<open>monitor_positions\<close>: the loop over a snapshot of the items, each position inside its own
  \<open>try\<close>; on an exception the position stays as it is and the loop goes on.
  \<open>_update_trailing_stop\<close> does nothing.
\<close>

fun monitor_loop ::
  "venue \<Rightarrow> (string \<times> position) list \<Rightarrow> call list \<Rightarrow> (string \<times> position) list \<times> call list" where
  "monitor_loop v [] tr = ([], tr)"
| "monitor_loop v ((position_id, pos) # rest) tr =
     (case check_position_status v pos tr of
        (Inl e, tr1) \<Rightarrow>
          (case monitor_loop v rest tr1 of (rest1, tr2) \<Rightarrow> ((position_id, pos) # rest1, tr2))
      | (Inr pos1, tr1) \<Rightarrow>
          (case monitor_loop v rest tr1 of (rest1, tr2) \<Rightarrow> ((position_id, pos1) # rest1, tr2)))"

definition monitor_positions :: "venue \<Rightarrow> pm_state \<Rightarrow> pm_state" where
  "monitor_positions v st =
     (case monitor_loop v (active_positions st) (calls st) of
        (reg, tr) \<Rightarrow> st\<lparr>active_positions := reg, calls := tr\<rparr>)"

text \<open>\<open>get_active_positions_count\<close>.\<close>

definition get_active_positions_count :: "pm_state \<Rightarrow> nat" where
  "get_active_positions_count st =
     length (filter (\<lambda>(position_id, p). pos_status p = ''ACTIVE'') (active_positions st))"

text \<open>
  \<open>cleanup_old_positions\<close>: the ids to remove are collected first, then deleted one by one.
  The cutoff is \<open>datetime.now() - timedelta(days=days)\<close>, in seconds here; a
  \<open>datetime\<close> is always truthy, so \<open>position.get('close_time')\<close> is false exactly when the
  key is absent.
\<close>

definition remove_closed_before :: "int \<Rightarrow> (string \<times> position) list \<Rightarrow> (string \<times> position) list" where
  "remove_closed_before cutoff_date reg =
     (let positions_to_remove =
            map fst (filter (\<lambda>(position_id, p).
                       pos_status p = ''CLOSED'' \<and>
                       (case pos_close_time p of None \<Rightarrow> False | Some t \<Rightarrow> t < cutoff_date)) reg)
      in foldl (\<lambda>r position_id. AList.delete position_id r) reg positions_to_remove)"

definition cleanup_old_positions :: "venue \<Rightarrow> int \<Rightarrow> pm_state \<Rightarrow> pm_state" where
  "cleanup_old_positions v days st =
     (let cutoff_date = v_now v (calls st) - days * 86400
      in st\<lparr>active_positions := remove_closed_before cutoff_date (active_positions st),
            calls := calls st @ [Now]\<rparr>)"

section \<open>main.py\<close>

text \<open>The bot's state as far as \<open>_handle_entry_signal\<close> touches it: the position manager
  and, for each id in \<open>detected_patterns\<close>, its \<open>'processed'\<close> flag.\<close>

record bot_state =
  position_manager :: pm_state
  detected_patterns :: "(string \<times> int) \<rightharpoonup> bool"

text \<open>\<open>_handle_entry_signal\<close>. Nothing in its \<open>try\<close> block raises in this model.\<close>

definition handle_entry_signal ::
  "venue \<Rightarrow> config \<Rightarrow> pattern \<Rightarrow> zones \<Rightarrow> confirmations \<Rightarrow> bot_state \<Rightarrow> bot_state" where
  "handle_entry_signal v cfg pat zs conf bs =
     (let active_positions_count = get_active_positions_count (position_manager bs)
      in if int active_positions_count \<ge> cfg_max_positions cfg then bs
         else (case execute_entry_signal v cfg pat zs conf (position_manager bs) of
                 (success, pm1) \<Rightarrow>
                   if success
                   then (let pattern_id = (pat_type pat, pat_completion_time pat)
                         in bs\<lparr>position_manager := pm1,
                               detected_patterns :=
                                 (if pattern_id \<in> dom (detected_patterns bs)
                                  then (detected_patterns bs)(pattern_id \<mapsto> True)
                                  else detected_patterns bs)\<rparr>)
                   else bs\<lparr>position_manager := pm1\<rparr>))"

section \<open>Pivot scan\<close>

text \<open>The pivot records the scan emits for bar \<open>i\<close>, and the rule of the specification:
  bar \<open>i\<close> dominates every bar at distance 1 to \<open>window\<close> on both sides.\<close>

definition high_pivot_at :: "candle list \<Rightarrow> nat \<Rightarrow> pivot" where
  "high_pivot_at df i =
     \<lparr>pv_index = i, pv_price = high (df ! i), pv_type = ''high'', pv_timestamp = timestamp (df ! i)\<rparr>"

definition low_pivot_at :: "candle list \<Rightarrow> nat \<Rightarrow> pivot" where
  "low_pivot_at df i =
     \<lparr>pv_index = i, pv_price = low (df ! i), pv_type = ''low'', pv_timestamp = timestamp (df ! i)\<rparr>"

definition is_high_pivot :: "candle list \<Rightarrow> nat \<Rightarrow> nat \<Rightarrow> bool" where
  "is_high_pivot df window i =
     (\<forall>j. 1 \<le> j \<and> j \<le> window \<longrightarrow>
        high (df ! i) \<ge> high (df ! (i - j)) \<and> high (df ! i) \<ge> high (df ! (i + j)))"

definition is_low_pivot :: "candle list \<Rightarrow> nat \<Rightarrow> nat \<Rightarrow> bool" where
  "is_low_pivot df window i =
     (\<forall>j. 1 \<le> j \<and> j \<le> window \<longrightarrow>
        low (df ! i) \<le> low (df ! (i - j)) \<and> low (df ! i) \<le> low (df ! (i + j)))"

lemma list_all_window: "list_all P [1..<window + 1] = (\<forall>j. 1 \<le> j \<and> j \<le> window \<longrightarrow> P j)"
  by (auto simp: list_all_iff)

lemma pivots_at_eq:
  assumes "window \<le> i" and "i + window < length df"
  shows "pivots_at df window i =
           (if is_high_pivot df window i then [high_pivot_at df i] else []) @
           (if is_low_pivot df window i then [low_pivot_at df i] else [])"
proof -
  have i: "i < length df"
    using assms by simp
  have dn: "\<And>j f. map f df ! (i - j) = f (df ! (i - j))"
    using i by (simp add: less_imp_diff_less)
  have up: "\<And>j f. j \<le> window \<Longrightarrow> map f df ! (i + j) = f (df ! (i + j))"
    using assms by simp
  have h: "(list_all (\<lambda>j. map high df ! i \<ge> map high df ! (i - j)) [1..<window + 1] \<and>
            list_all (\<lambda>j. map high df ! i \<ge> map high df ! (i + j)) [1..<window + 1])
           = is_high_pivot df window i"
    unfolding list_all_window is_high_pivot_def dn using i by (auto simp: up)
  have l: "(list_all (\<lambda>j. map low df ! i \<le> map low df ! (i - j)) [1..<window + 1] \<and>
            list_all (\<lambda>j. map low df ! i \<le> map low df ! (i + j)) [1..<window + 1])
           = is_low_pivot df window i"
    unfolding list_all_window is_low_pivot_def dn using i by (auto simp: up)
  show ?thesis
    unfolding pivots_at_def Let_def h l using i
    by (simp add: high_pivot_at_def low_pivot_at_def)
qed

lemma set_find_pivots:
  "p \<in> set (find_pivots df window) \<longleftrightarrow>
     (\<exists>i. window \<le> i \<and> i + window < length df \<and>
        (p = high_pivot_at df i \<and> is_high_pivot df window i \<or>
         p = low_pivot_at df i \<and> is_low_pivot df window i))"
proof -
  have "p \<in> set (find_pivots df window) \<longleftrightarrow>
          (\<exists>i\<in>{window..<length df - window}. p \<in> set (pivots_at df window i))"
    by (auto simp: find_pivots_def)
  also have "\<dots> \<longleftrightarrow> (\<exists>i. window \<le> i \<and> i + window < length df \<and> p \<in> set (pivots_at df window i))"
    by (auto simp: less_diff_conv)
  also have "\<dots> \<longleftrightarrow> (\<exists>i. window \<le> i \<and> i + window < length df \<and>
        (p = high_pivot_at df i \<and> is_high_pivot df window i \<or>
         p = low_pivot_at df i \<and> is_low_pivot df window i))"
    by (auto simp: pivots_at_eq)
  finally show ?thesis .
qed

text \<open>
  Claim C9. A pivot record is in the output of the scan exactly when it is the High record
  of a bar \<open>i\<close> with \<open>window \<le> i < len - window\<close> whose high is \<open>\<ge>\<close> every high at
  distance 1..window on both sides, or the Low record of such a bar under the symmetric
  rule with \<open>\<le>\<close> on lows (so ties keep the status, a flat bar yields both records, and bars
  within \<open>window\<close> of either boundary yield nothing); the output is ordered by bar index;
  and a series of fewer than \<open>2*window+1\<close> bars yields the empty list.
\<close>

theorem find_pivots_characterisation:
  "(p \<in> set (find_pivots df window) \<longleftrightarrow>
      (\<exists>i. window \<le> i \<and> i + window < length df \<and>
         (p = high_pivot_at df i \<and> is_high_pivot df window i \<or>
          p = low_pivot_at df i \<and> is_low_pivot df window i))) \<and>
   sorted (map pv_index (find_pivots df window)) \<and>
   (length df < 2 * window + 1 \<longrightarrow> find_pivots df window = [])"
  by (simp add: set_find_pivots) (simp add: find_pivots_def)

definition flat_bar :: "int \<Rightarrow> candle" where
  "flat_bar t = \<lparr>timestamp = t, c_open = 10, high = 10, low = 10, close = 10, volume = 1\<rparr>"

theorem find_pivots_characterisation_witness:
  "high_pivot_at [flat_bar 0, flat_bar 1, flat_bar 2] 1 \<in> set (find_pivots [flat_bar 0, flat_bar 1, flat_bar 2] 1) \<and>
   low_pivot_at [flat_bar 0, flat_bar 1, flat_bar 2] 1 \<in> set (find_pivots [flat_bar 0, flat_bar 1, flat_bar 2] 1) \<and>
   high_pivot_at [flat_bar 0, flat_bar 1, flat_bar 2] 0 \<notin> set (find_pivots [flat_bar 0, flat_bar 1, flat_bar 2] 1) \<and>
   find_pivots [flat_bar 0, flat_bar 1] 1 = []"
proof -
  let ?df = "[flat_bar 0, flat_bar 1, flat_bar 2]"
  have hp: "is_high_pivot ?df 1 1" and lp: "is_low_pivot ?df 1 1"
    by (auto simp: is_high_pivot_def is_low_pivot_def flat_bar_def nth_Cons')
  have ne: "\<And>i. 1 \<le> i \<Longrightarrow> high_pivot_at ?df 0 \<noteq> high_pivot_at ?df i \<and> high_pivot_at ?df 0 \<noteq> low_pivot_at ?df i"
    by (simp add: high_pivot_at_def low_pivot_at_def)
  have a: "high_pivot_at ?df 1 \<in> set (find_pivots ?df 1)"
    using find_pivots_characterisation [of "high_pivot_at ?df 1" ?df 1] hp
    by (simp del: One_nat_def) (rule exI [of _ 1], simp)
  have b: "low_pivot_at ?df 1 \<in> set (find_pivots ?df 1)"
    using find_pivots_characterisation [of "low_pivot_at ?df 1" ?df 1] lp
    by (simp del: One_nat_def) (rule exI [of _ 1], simp)
  have c: "high_pivot_at ?df 0 \<notin> set (find_pivots ?df 1)"
    using find_pivots_characterisation [of "high_pivot_at ?df 0" ?df 1] ne by auto
  have d: "find_pivots [flat_bar 0, flat_bar 1] 1 = []"
    using find_pivots_characterisation [of undefined "[flat_bar 0, flat_bar 1]" 1] by simp
  show ?thesis using a b c d by blast
qed

section \<open>The rounding\<close>

text \<open>\<open>exponent\<close> is the binary exponent, and \<open>fl x\<close> is a multiple of the unit in the last
  place of \<open>x\<close> at most half a unit away from \<open>x\<close>.\<close>

lemma pow2_pos: "0 < pow2 e"
  by (simp add: pow2_def)

lemma pow2_nonneg_eq: "0 \<le> e \<Longrightarrow> pow2 e = 2 ^ nat e"
  by (simp add: pow2_def)

lemma pow2_nonpos_eq: "e \<le> 0 \<Longrightarrow> pow2 e = 1 / 2 ^ nat (- e)"
  by (cases "e = 0") (simp_all add: pow2_def)

lemma exponent_bounds:
  assumes "0 < x"
  shows "pow2 (exponent x) \<le> x \<and> x < pow2 (exponent x + 1)"
proof (cases "1 \<le> x")
  case True
  define n where "n = \<lfloor>x\<rfloor>"
  have n: "1 \<le> n" "of_int n \<le> x" "x < of_int n + 1"
    using True by (simp_all add: n_def le_floor_iff)
  then have b: "2 ^ nat (bitlen n - 1) \<le> n" "n < 2 ^ nat (bitlen n)"
    using bitlen_bounds [of n] by simp_all
  have "bitlen n \<noteq> 0"
    using n(1) by (simp add: bitlen_eq_zero_iff)
  then have p: "1 \<le> bitlen n"
    using bitlen_nonneg [of n] by linarith
  have e: "exponent x = bitlen n - 1"
    using True by (simp add: exponent_def n_def)
  have "pow2 (bitlen n - 1) = of_int (2 ^ nat (bitlen n - 1))"
    using p by (simp add: pow2_nonneg_eq)
  also have "\<dots> \<le> of_int n"
    using b(1) by (simp only: of_int_le_iff)
  finally have l: "pow2 (bitlen n - 1) \<le> x"
    using n(2) by simp
  have "n + 1 \<le> 2 ^ nat (bitlen n)"
    using b(2) by simp
  then have "(of_int (n + 1) :: real) \<le> of_int (2 ^ nat (bitlen n))"
    by (simp only: of_int_le_iff)
  then have "x < 2 ^ nat (bitlen n)"
    using n(3) by simp
  then have u: "x < pow2 (bitlen n - 1 + 1)"
    using p by (simp add: pow2_nonneg_eq)
  show ?thesis
    unfolding e using l u by simp
next
  case False
  define m where "m = \<lceil>1 / x\<rceil> - 1"
  have x1: "1 < 1 / x"
    using False assms by simp
  have m: "1 \<le> m" "of_int m < 1 / x" "1 / x \<le> of_int m + 1"
  proof -
    have "1 < \<lceil>1 / x\<rceil>"
      using x1 by (simp add: less_ceiling_iff)
    then show "1 \<le> m" by (simp add: m_def)
    show "of_int m < 1 / x"
      unfolding m_def by linarith
    show "1 / x \<le> of_int m + 1"
      unfolding m_def by simp
  qed
  then have b: "2 ^ nat (bitlen m - 1) \<le> m" "m < 2 ^ nat (bitlen m)"
    using bitlen_bounds [of m] by simp_all
  have "bitlen m \<noteq> 0"
    using m(1) by (simp add: bitlen_eq_zero_iff)
  then have p: "1 \<le> bitlen m"
    using bitlen_nonneg [of m] by linarith
  have e: "exponent x = - bitlen m"
    using False by (simp add: exponent_def m_def)
  have "m + 1 \<le> 2 ^ nat (bitlen m)"
    using b(2) by simp
  then have "(of_int (m + 1) :: real) \<le> of_int (2 ^ nat (bitlen m))"
    by (simp only: of_int_le_iff)
  then have "1 / x \<le> 2 ^ nat (bitlen m)"
    using m(3) by simp
  then have "1 \<le> 2 ^ nat (bitlen m) * x"
    using assms by (simp add: field_simps)
  then have l: "pow2 (- bitlen m) \<le> x"
    using p by (simp add: pow2_nonpos_eq field_simps)
  have "(of_int (2 ^ nat (bitlen m - 1)) :: real) \<le> of_int m"
    using b(1) by (simp only: of_int_le_iff)
  then have "(2 :: real) ^ nat (bitlen m - 1) \<le> of_int m"
    by simp
  then have "2 ^ nat (bitlen m - 1) < 1 / x"
    using m(2) by linarith
  then have "2 ^ nat (bitlen m - 1) * x < 1"
    using assms by (simp add: field_simps)
  then have u: "x < pow2 (- bitlen m + 1)"
    using p by (simp add: pow2_nonpos_eq field_simps)
  show ?thesis
    unfolding e using l u by simp
qed

lemma round_half_even_near: "\<bar>of_int (round_half_even m) - m\<bar> \<le> 1 / 2"
proof -
  have "of_int \<lfloor>m\<rfloor> \<le> m" "m < of_int \<lfloor>m\<rfloor> + 1"
    by linarith+
  then show ?thesis
    by (auto simp: round_half_even_def Let_def)
qed

lemma fl_nearest:
  assumes "x \<noteq> 0"
  shows "\<exists>k. fl x = of_int k * pow2 (exponent \<bar>x\<bar> - 52) \<and>
             \<bar>fl x - x\<bar> \<le> pow2 (exponent \<bar>x\<bar> - 52) / 2"
proof -
  define u where "u = pow2 (exponent \<bar>x\<bar> - 52)"
  define r where "r = round_half_even (\<bar>x\<bar> / u)"
  have u: "0 < u" by (simp add: u_def pow2_pos)
  have f: "fl x = sgn x * of_int r * u"
    using assms by (simp add: fl_def Let_def u_def r_def)
  have "\<bar>of_int r - \<bar>x\<bar> / u\<bar> \<le> 1 / 2"
    unfolding r_def by (rule round_half_even_near)
  then have "\<bar>of_int r - \<bar>x\<bar> / u\<bar> * u \<le> 1 / 2 * u"
    using u by (simp only: mult_le_cancel_right_pos)
  then have "\<bar>(of_int r - \<bar>x\<bar> / u) * u\<bar> \<le> u / 2"
    using u by (simp add: abs_mult)
  moreover have "(of_int r - \<bar>x\<bar> / u) * u = of_int r * u - \<bar>x\<bar>"
    using u by (simp add: left_diff_distrib)
  ultimately have d: "\<bar>of_int r * u - \<bar>x\<bar>\<bar> \<le> u / 2"
    by simp
  have sx: "sgn x * \<bar>x\<bar> = x"
    by (rule sgn_mult_abs)
  have "fl x - x = sgn x * of_int r * u - sgn x * \<bar>x\<bar>"
    unfolding f sx by (rule refl)
  also have "\<dots> = sgn x * (of_int r * u - \<bar>x\<bar>)"
    by (simp add: right_diff_distrib mult.assoc)
  finally have "\<bar>fl x - x\<bar> = \<bar>sgn x * (of_int r * u - \<bar>x\<bar>)\<bar>"
    by simp
  also have "\<dots> = \<bar>of_int r * u - \<bar>x\<bar>\<bar>"
    using assms by (simp add: abs_mult abs_sgn_eq)
  finally have e: "\<bar>fl x - x\<bar> \<le> u / 2"
    using d by simp
  have "fl x = of_int (sgn (if x < 0 then - 1 else 1) * r) * u"
    unfolding f using assms by (simp add: sgn_real_def)
  then show ?thesis
    using e unfolding u_def by blast
qed

section \<open>Ratio checks\<close>

text \<open>The length of the segment between two pivots and the ratio of two segments, as the
  code computes them; and the two kinds of ratio check of the specification: the
  denominator is non-zero and the ratio is within the tolerance 0.05 of a centre, or lies
  in the band \<open>[lo - 0.05, hi + 0.05]\<close>. The literals, the difference and the sums are the
  float ones.\<close>

definition seg :: "pivot \<Rightarrow> pivot \<Rightarrow> real" where
  "seg p q = \<bar>fsub (pv_price q) (pv_price p)\<bar>"

definition ratio :: "real \<Rightarrow> real \<Rightarrow> real" where
  "ratio num den = fdiv num den"

definition near_centre :: "real \<Rightarrow> real \<Rightarrow> bool" where
  "near_centre centre r = (\<bar>fsub r (fl centre)\<bar> \<le> fl 0.05)"

definition in_band :: "real \<Rightarrow> real \<Rightarrow> real \<Rightarrow> bool" where
  "in_band lo hi r = (fsub (fl lo) (fl 0.05) \<le> r \<and> r \<le> fadd (fl hi) (fl 0.05))"

definition checks_passed :: "pivot \<Rightarrow> pivot \<Rightarrow> pivot \<Rightarrow> pivot \<Rightarrow> pivot \<Rightarrow> nat" where
  "checks_passed x a b c d =
     length (filter id
       [seg x a \<noteq> 0 \<and> near_centre 0.786 (ratio (seg a b) (seg x a)),
        seg a b \<noteq> 0 \<and> in_band 0.382 0.886 (ratio (seg b c) (seg a b)),
        seg b c \<noteq> 0 \<and> in_band 1.618 2.618 (ratio (seg c d) (seg b c)),
        seg x a \<noteq> 0 \<and> in_band 1.27 1.618 (ratio (seg a d) (seg x a))])"

lemma calculate_ratios_lookup:
  "calculate_ratios x a b c d k =
     (if k = ''CD_BC'' \<and> seg b c \<noteq> 0 then Some (ratio (seg c d) (seg b c))
      else if k = ''BC_AB'' \<and> seg a b \<noteq> 0 then Some (ratio (seg b c) (seg a b))
      else if k = ''AD_XA'' \<and> seg x a \<noteq> 0 then Some (ratio (seg a d) (seg x a))
      else if k = ''AB_XA'' \<and> seg x a \<noteq> 0 then Some (ratio (seg a b) (seg x a))
      else None)"
  by (simp add: calculate_ratios_def seg_def ratio_def Let_def)

lemma is_ratio_valid_centre: "is_ratio_valid r (fl centre) tolerance = near_centre centre r"
  by (simp add: is_ratio_valid_def tolerance_def near_centre_def)

lemma band_tolerance:
  "(fsub (fl lo) tolerance \<le> r \<and> r \<le> fadd (fl hi) tolerance) = in_band lo hi r"
  by (simp add: in_band_def tolerance_def)

lemma butterfly_checks_alt:
  "butterfly_checks ratios =
     (case ratios ''AB_XA'' of None \<Rightarrow> [] | Some r \<Rightarrow> [near_centre 0.786 r]) @
     (case ratios ''BC_AB'' of None \<Rightarrow> [] | Some r \<Rightarrow> [in_band 0.382 0.886 r]) @
     (case ratios ''CD_BC'' of None \<Rightarrow> [] | Some r \<Rightarrow> [in_band 1.618 2.618 r]) @
     (case ratios ''AD_XA'' of None \<Rightarrow> [] | Some r \<Rightarrow> [in_band 1.27 1.618 r])"
  unfolding butterfly_checks_def is_ratio_valid_centre band_tolerance by (rule refl)

lemma butterfly_checks_calc:
  "length (filter id (butterfly_checks (calculate_ratios x a b c d))) = checks_passed x a b c d"
  unfolding butterfly_checks_alt calculate_ratios_lookup checks_passed_def
  by simp

lemma is_butterfly_pattern_calc:
  "is_butterfly_pattern (calculate_ratios x a b c d) \<longleftrightarrow> checks_passed x a b c d \<ge> 3"
  by (simp add: is_butterfly_pattern_def butterfly_checks_calc)

text \<open>The tolerance, the centre and the bounds of the bands as the floats they are: the
  upper bound of \<open>AD/XA\<close>, for one, is the float next above 1.668.\<close>

lemma centre_bounds:
  "fl 0.05 = 3602879701896397 / 72057594037927936"
  "fl 0.786 = 1769914653556605 / 2251799813685248"
  by code_simp+

lemma band_bounds:
  "fsub (fl 0.382) (fl 0.05) = 5980780305148019 / 18014398509481984"
  "fadd (fl 0.886) (fl 0.05) = 8430738502437569 / 9007199254740992"
  "fsub (fl 1.618) (fl 0.05) = 3530822107858469 / 2251799813685248"
  "fadd (fl 2.618) (fl 0.05) = 6007801902912241 / 2251799813685248"
  "fsub (fl 1.27) (fl 0.05) = 5494391545392005 / 4503599627370496"
  "fadd (fl 1.618) (fl 0.05) = 1878001044613497 / 1125899906842624"
  by code_simp+

text \<open>
  Claim C2. For any five pivots, each of the four ratios is stored exactly when its
  denominator segment is non-zero (and is then the quotient of the two segments), and the
  window is accepted as a butterfly pattern exactly when at least 3 of the 4 ratio checks
  hold: \<open>AB/XA\<close> within 0.05 of 0.786, \<open>BC/AB\<close> in \<open>[0.382 - 0.05, 0.886 + 0.05]\<close>,
  \<open>CD/BC\<close> in \<open>[1.618 - 0.05, 2.618 + 0.05]\<close>, \<open>AD/XA\<close> in \<open>[1.27 - 0.05, 1.618 + 0.05]\<close>,
  a check with a zero denominator not holding; the scan over consecutive windows keeps
  the window iff its kinds alternate and it is accepted. Segments, quotients, tolerance
  and bounds are the binary64 values the code computes (\<open>seg\<close>, \<open>ratio\<close>, \<open>near_centre\<close>,
  \<open>in_band\<close>), so the bands are closed intervals between the floats \<open>lo - 0.05\<close> and
  \<open>hi + 0.05\<close>.
\<close>

theorem butterfly_acceptance:
  "calculate_ratios x a b c d ''AB_XA'' =
     (if seg x a \<noteq> 0 then Some (ratio (seg a b) (seg x a)) else None) \<and>
   calculate_ratios x a b c d ''BC_AB'' =
     (if seg a b \<noteq> 0 then Some (ratio (seg b c) (seg a b)) else None) \<and>
   calculate_ratios x a b c d ''CD_BC'' =
     (if seg b c \<noteq> 0 then Some (ratio (seg c d) (seg b c)) else None) \<and>
   calculate_ratios x a b c d ''AD_XA'' =
     (if seg x a \<noteq> 0 then Some (ratio (seg a d) (seg x a)) else None) \<and>
   (is_butterfly_pattern (calculate_ratios x a b c d) \<longleftrightarrow> checks_passed x a b c d \<ge> 3) \<and>
   find_butterfly_patterns (x # a # b # c # d # rest) =
     (if is_valid_sequence [x, a, b, c, d] \<and> checks_passed x a b c d \<ge> 3
      then [make_pattern x a b c d (calculate_ratios x a b c d)] else [])
     @ find_butterfly_patterns (a # b # c # d # rest)"
  by (simp add: calculate_ratios_lookup is_butterfly_pattern_calc)

text \<open>A pivot with the given bar index, price and kind.\<close>

definition pv :: "nat \<Rightarrow> real \<Rightarrow> string \<Rightarrow> pivot" where
  "pv i p k = \<lparr>pv_index = i, pv_price = p, pv_type = k, pv_timestamp = int i\<rparr>"

text \<open>Three windows: one whose \<open>AD/XA\<close> sits on the upper bound of its band (accepted with
  3 checks), the same with D one unit in the last place higher (rejected with 2), and a
  flat one (no ratio stored).\<close>

definition edge_price :: real where
  "edge_price = 1878001044613497 / 1125899906842624"

lemma edge_segments:
  "seg (pv 5 1 ''high'') (pv 12 0 ''low'') = 1"
  "seg (pv 12 0 ''low'') (pv 20 0.75 ''high'') = 0.75"
  "seg (pv 20 0.75 ''high'') (pv 27 0.375 ''low'') = 0.375"
  "seg (pv 27 0.375 ''low'') (pv 35 edge_price ''high'') = 1455788579547513 / 1125899906842624"
  "seg (pv 12 0 ''low'') (pv 35 edge_price ''high'') = edge_price"
  "seg (pv 27 0.375 ''low'') (pv 35 (edge_price + 1 / 2 ^ 52) ''high'') = 5823154318190053 / 4503599627370496"
  "seg (pv 12 0 ''low'') (pv 35 (edge_price + 1 / 2 ^ 52) ''high'') = edge_price + 1 / 2 ^ 52"
  "seg (pv i 100 k) (pv j 100 k') = 0"
  by (simp_all add: seg_def pv_def fsub_def edge_price_def fl_def exponent_def pow2_def
        round_half_even_def Let_def compute_bitlen)

lemma edge_ratios:
  "ratio 0.75 1 = 0.75"
  "ratio 0.375 0.75 = 0.5"
  "ratio (1455788579547513 / 1125899906842624) 0.375 = 485262859849171 / 140737488355328"
  "ratio edge_price 1 = edge_price"
  "ratio (5823154318190053 / 4503599627370496) 0.375 = 7764205757586737 / 2251799813685248"
  "ratio (edge_price + 1 / 2 ^ 52) 1 = edge_price + 1 / 2 ^ 52"
  by (simp_all add: ratio_def fdiv_def edge_price_def fl_def exponent_def pow2_def
        round_half_even_def Let_def compute_bitlen)

lemma edge_near_centre: "near_centre 0.786 0.75"
  unfolding near_centre_def centre_bounds
  by (simp add: fsub_def fl_def exponent_def pow2_def round_half_even_def Let_def compute_bitlen)

lemma edge_bands:
  "in_band 0.382 0.886 0.5"
  "\<not> in_band 1.618 2.618 (485262859849171 / 140737488355328)"
  "in_band 1.27 1.618 edge_price"
  "\<not> in_band 1.618 2.618 (7764205757586737 / 2251799813685248)"
  "\<not> in_band 1.27 1.618 (edge_price + 1 / 2 ^ 52)"
  unfolding in_band_def band_bounds by (simp_all add: edge_price_def)

lemma edge_checks:
  "checks_passed (pv 5 1 ''high'') (pv 12 0 ''low'') (pv 20 0.75 ''high'') (pv 27 0.375 ''low'')
     (pv 35 edge_price ''high'') = 3"
  "checks_passed (pv 5 1 ''high'') (pv 12 0 ''low'') (pv 20 0.75 ''high'') (pv 27 0.375 ''low'')
     (pv 35 (edge_price + 1 / 2 ^ 52) ''high'') = 2"
  "checks_passed (pv 5 100 ''high'') (pv 12 100 ''low'') (pv 20 100 ''high'') (pv 27 100 ''low'')
     (pv 35 100 ''high'') = 0"
  unfolding checks_passed_def edge_segments edge_ratios
  using edge_near_centre edge_bands by simp_all

theorem butterfly_acceptance_witness:
  "is_butterfly_pattern (calculate_ratios (pv 5 1 ''high'') (pv 12 0 ''low'') (pv 20 0.75 ''high'')
      (pv 27 0.375 ''low'') (pv 35 edge_price ''high'')) \<and>
   calculate_ratios (pv 5 1 ''high'') (pv 12 0 ''low'') (pv 20 0.75 ''high'')
      (pv 27 0.375 ''low'') (pv 35 edge_price ''high'') ''AB_XA'' = Some 0.75 \<and>
   calculate_ratios (pv 5 1 ''high'') (pv 12 0 ''low'') (pv 20 0.75 ''high'')
      (pv 27 0.375 ''low'') (pv 35 edge_price ''high'') ''AD_XA'' = Some edge_price \<and>
   find_butterfly_patterns [pv 5 1 ''high'', pv 12 0 ''low'', pv 20 0.75 ''high'',
      pv 27 0.375 ''low'', pv 35 edge_price ''high''] =
     [make_pattern (pv 5 1 ''high'') (pv 12 0 ''low'') (pv 20 0.75 ''high'') (pv 27 0.375 ''low'')
        (pv 35 edge_price ''high'')
        (calculate_ratios (pv 5 1 ''high'') (pv 12 0 ''low'') (pv 20 0.75 ''high'')
           (pv 27 0.375 ''low'') (pv 35 edge_price ''high''))] \<and>
   \<not> is_butterfly_pattern (calculate_ratios (pv 5 1 ''high'') (pv 12 0 ''low'') (pv 20 0.75 ''high'')
      (pv 27 0.375 ''low'') (pv 35 (edge_price + 1 / 2 ^ 52) ''high'')) \<and>
   find_butterfly_patterns [pv 5 1 ''high'', pv 12 0 ''low'', pv 20 0.75 ''high'',
      pv 27 0.375 ''low'', pv 35 (edge_price + 1 / 2 ^ 52) ''high''] = [] \<and>
   \<not> is_butterfly_pattern (calculate_ratios (pv 5 100 ''high'') (pv 12 100 ''low'') (pv 20 100 ''high'')
      (pv 27 100 ''low'') (pv 35 100 ''high'')) \<and>
   calculate_ratios (pv 5 100 ''high'') (pv 12 100 ''low'') (pv 20 100 ''high'')
      (pv 27 100 ''low'') (pv 35 100 ''high'') ''AB_XA'' = None"
proof -
  have v: "is_valid_sequence [pv i p ''high'', pv j q ''low'', pv k r ''high'',
      pv l s ''low'', pv m t ''high'']" for i j k l m p q r s t
    by (simp add: is_valid_sequence_def pv_def)
  have n: "find_butterfly_patterns [a, b, c, d] = []" for a b c d
    by simp
  show ?thesis
    using butterfly_acceptance [of "pv 5 1 ''high''" "pv 12 0 ''low''" "pv 20 0.75 ''high''"
        "pv 27 0.375 ''low''" "pv 35 edge_price ''high''" "[]"]
      butterfly_acceptance [of "pv 5 1 ''high''" "pv 12 0 ''low''" "pv 20 0.75 ''high''"
        "pv 27 0.375 ''low''" "pv 35 (edge_price + 1 / 2 ^ 52) ''high''" "[]"]
      butterfly_acceptance [of "pv 5 100 ''high''" "pv 12 100 ''low''" "pv 20 100 ''high''"
        "pv 27 100 ''low''" "pv 35 100 ''high''" "[]"]
    unfolding edge_checks edge_segments edge_ratios n by (simp add: v)
qed

section \<open>Confidence score\<close>

text \<open>The scoring rule as the specification words it: every ratio present is scored by
  \<open>max(0, 100 - distance * scale)\<close>, the distance being that to the nearest target.\<close>

definition nearest_distance :: "real list \<Rightarrow> real \<Rightarrow> real" where
  "nearest_distance targets r = Min (set (map (\<lambda>t. \<bar>r - t\<bar>) targets))"

definition proximity_score :: "real \<Rightarrow> real \<Rightarrow> real" where
  "proximity_score scale distance = max 0 (100 - distance * scale)"

definition score_of :: "(string \<rightharpoonup> real) \<Rightarrow> string \<Rightarrow> (real \<Rightarrow> real) \<Rightarrow> real list" where
  "score_of ratios key f = (case ratios key of None \<Rightarrow> [] | Some r \<Rightarrow> [f r])"

definition nearest_target_scores :: "(string \<rightharpoonup> real) \<Rightarrow> real list" where
  "nearest_target_scores ratios =
     score_of ratios ''AB_XA'' (\<lambda>r. proximity_score 100 (nearest_distance [0.786] r)) @
     score_of ratios ''BC_AB'' (\<lambda>r. proximity_score 100 (nearest_distance [0.382, 0.5, 0.618, 0.786, 0.886] r)) @
     score_of ratios ''CD_BC'' (\<lambda>r. proximity_score 50 (nearest_distance [1.618, 2.618] r)) @
     score_of ratios ''AD_XA'' (\<lambda>r. proximity_score 100 (nearest_distance [1.27, 1.618] r))"

definition nearest_target_confidence :: "(string \<rightharpoonup> real) \<Rightarrow> real" where
  "nearest_target_confidence ratios =
     (if nearest_target_scores ratios = [] then 0
      else sum_list (nearest_target_scores ratios) / real (length (nearest_target_scores ratios)))"

text \<open>The rule the code follows: for \<open>CD/BC\<close> the upper target 2.618 is taken as soon as
  the ratio exceeds 2.0, and for \<open>AD/XA\<close> the upper target 1.618 as soon as the ratio exceeds
  1.4; below the midpoints 2.118 and 1.444 that is the farther target.\<close>

definition threshold_scores :: "(string \<rightharpoonup> real) \<Rightarrow> real list" where
  "threshold_scores ratios =
     score_of ratios ''AB_XA'' (\<lambda>r. proximity_score 100 (nearest_distance [0.786] r)) @
     score_of ratios ''BC_AB'' (\<lambda>r. proximity_score 100 (nearest_distance [0.382, 0.5, 0.618, 0.786, 0.886] r)) @
     score_of ratios ''CD_BC'' (\<lambda>r. proximity_score 50
        (if 2 < r \<and> r < 2.118 then \<bar>r - 2.618\<bar> else nearest_distance [1.618, 2.618] r)) @
     score_of ratios ''AD_XA'' (\<lambda>r. proximity_score 100
        (if 1.4 < r \<and> r < 1.444 then \<bar>r - 1.618\<bar> else nearest_distance [1.27, 1.618] r))"

lemma cd_target: "\<bar>r - (if r > 2.0 then 2.618 else 1.618)\<bar> =
    (if 2 < r \<and> r < 2.118 then \<bar>r - 2.618\<bar> else nearest_distance [1.618, 2.618] r)"
  by (auto simp: nearest_distance_def min_def abs_if)

lemma ad_target: "\<bar>r - (if r > 1.4 then 1.618 else 1.27)\<bar> =
    (if 1.4 < r \<and> r < 1.444 then \<bar>r - 1.618\<bar> else nearest_distance [1.27, 1.618] r)"
  by (auto simp: nearest_distance_def min_def abs_if)

lemma ab_distance: "\<bar>r - 0.786\<bar> = nearest_distance [0.786] r"
  by (simp add: nearest_distance_def)

lemma bc_distance:
  "Min (set (map (\<lambda>level. \<bar>r - level\<bar>) fib_levels_conf)) =
     nearest_distance [0.382, 0.5, 0.618, 0.786, 0.886] r"
  unfolding nearest_distance_def fib_levels_conf_def by (rule refl)

lemma score_scale: "max 0 (100 - d * scale) = proximity_score scale d"
  by (simp add: proximity_score_def)

lemma confidence_scores_threshold: "confidence_scores ratios = threshold_scores ratios"
  unfolding confidence_scores_def Let_def cd_target ad_target ab_distance bc_distance score_scale
    threshold_scores_def score_of_def
  by (rule refl)

text \<open>
  Claim C3, as the code has it. Each ratio present is scored by
  \<open>max(0, 100 - distance * scale)\<close>: \<open>AB/XA\<close> against 0.786 and \<open>BC/AB\<close> against the nearest
  of the five Fibonacci levels (scale 100); \<open>CD/BC\<close> (scale 50) and \<open>AD/XA\<close> (scale 100)
  against the nearer of their two targets except for \<open>2.0 < CD/BC < 2.118\<close> and
  \<open>1.4 < AD/XA < 1.444\<close>, where the distance is taken to the upper target; the confidence
  is the mean of the scores present, and 0 when no ratio is present.
\<close>

theorem calculate_confidence_thresholds:
  "confidence_scores ratios = threshold_scores ratios \<and>
   calculate_confidence ratios =
     (if threshold_scores ratios = [] then 0
      else sum_list (threshold_scores ratios) / real (length (threshold_scores ratios)))"
  by (simp add: calculate_confidence_def confidence_scores_threshold mean_def Let_def)

text \<open>With \<open>CD/BC = 2.1\<close> the nearest target is 1.618 (score 75.9) but the code scores
  against 2.618 (74.1); with \<open>AD/XA = 1.42\<close> the nearest target is 1.27 (score 85) but the
  code scores against 1.618 (80.2).\<close>

theorem calculate_confidence_nearest_counterexample:
  "calculate_confidence [''CD_BC'' \<mapsto> 2.1] = 74.1 \<and>
   nearest_target_confidence [''CD_BC'' \<mapsto> 2.1] = 75.9 \<and>
   calculate_confidence [''AD_XA'' \<mapsto> 1.42] = 80.2 \<and>
   nearest_target_confidence [''AD_XA'' \<mapsto> 1.42] = 85"
proof -
  have a: "nearest_target_scores [''CD_BC'' \<mapsto> 2.1] = [proximity_score 50 (nearest_distance [1.618, 2.618] 2.1)]"
    by (simp add: nearest_target_scores_def score_of_def)
  have b: "nearest_target_scores [''AD_XA'' \<mapsto> 1.42] = [proximity_score 100 (nearest_distance [1.27, 1.618] 1.42)]"
    by (simp add: nearest_target_scores_def score_of_def)
  have c: "proximity_score 50 (nearest_distance [1.618, 2.618] 2.1) = 75.9"
    by (simp add: proximity_score_def nearest_distance_def)
  have d: "proximity_score 100 (nearest_distance [1.27, 1.618] 1.42) = 85"
    by (simp add: proximity_score_def nearest_distance_def)
  have e: "calculate_confidence [''CD_BC'' \<mapsto> 2.1] = 74.1"
    by (simp add: calculate_confidence_def confidence_scores_def mean_def)
  have f: "calculate_confidence [''AD_XA'' \<mapsto> 1.42] = 80.2"
    by (simp add: calculate_confidence_def confidence_scores_def mean_def)
  show ?thesis
    unfolding nearest_target_confidence_def a b c d e f by simp
qed

theorem calculate_confidence_thresholds_witness:
  "calculate_confidence [''CD_BC'' \<mapsto> 2.1, ''BC_AB'' \<mapsto> 0.6] = 86.15"
proof -
  have a: "threshold_scores [''CD_BC'' \<mapsto> 2.1, ''BC_AB'' \<mapsto> 0.6] =
      [proximity_score 100 (nearest_distance [0.382, 0.5, 0.618, 0.786, 0.886] 0.6),
       proximity_score 50 (if (2::real) < 2.1 \<and> (2.1::real) < 2.118 then \<bar>2.1 - 2.618\<bar> else nearest_distance [1.618, 2.618] 2.1)]"
    by (simp add: threshold_scores_def score_of_def)
  have b: "proximity_score 100 (nearest_distance [0.382, 0.5, 0.618, 0.786, 0.886] 0.6) = 98.2"
    by (simp add: proximity_score_def nearest_distance_def)
  have c: "proximity_score 50 (if (2::real) < 2.1 \<and> (2.1::real) < 2.118 then \<bar>2.1 - 2.618\<bar> else nearest_distance [1.618, 2.618] 2.1) = 74.1"
    by (simp add: proximity_score_def)
  show ?thesis
    using calculate_confidence_thresholds [of "[''CD_BC'' \<mapsto> 2.1, ''BC_AB'' \<mapsto> 0.6]"]
    unfolding a b c by simp
qed

text \<open>A bearish example pattern with D at 100 and C at 90.\<close>

definition bearish_example :: pattern where
  "bearish_example =
     make_pattern (pv 5 200 ''high'') (pv 12 100 ''low'') (pv 20 178.6 ''high'')
       (pv 27 90 ''low'') (pv 35 100 ''high'') Map.empty"

section \<open>Fibonacci zones\<close>

lemma fib_fold:
  "foldl (\<lambda>m (key, level). m(key \<mapsto> price_level pat dc level)) Map.empty fib_levels =
     [''fib_236'' \<mapsto> price_level pat dc 0.236, ''fib_382'' \<mapsto> price_level pat dc 0.382,
      ''fib_500'' \<mapsto> price_level pat dc 0.5, ''fib_618'' \<mapsto> price_level pat dc 0.618,
      ''fib_786'' \<mapsto> price_level pat dc 0.786, ''fib_886'' \<mapsto> price_level pat dc 0.886,
      ''fib_1000'' \<mapsto> price_level pat dc 1.0]"
  by (simp add: fib_levels_def)

text \<open>The level prices as a function of the D price, the C price and the direction
  alone.\<close>

definition level_map :: "real \<Rightarrow> real \<Rightarrow> string \<Rightarrow> (string \<rightharpoonup> real)" where
  "level_map d c direction =
     map_of (map (\<lambda>(key, ratio). (key, if direction = ''bearish'' then d - \<bar>d - c\<bar> * ratio
                                               else d + \<bar>d - c\<bar> * ratio)) fib_levels)"

definition level_886 :: "real \<Rightarrow> real \<Rightarrow> string \<Rightarrow> real" where
  "level_886 d c direction =
     (if direction = ''bearish'' then d - \<bar>d - c\<bar> * 0.886 else d + \<bar>d - c\<bar> * 0.886)"

lemma create_fibonacci_zones_eq:
  "create_fibonacci_zones pat =
     (let d = pv_price (pt_D (pat_points pat)); c = pv_price (pt_C (pat_points pat));
          f = level_886 d c (pat_direction pat) in
      Inr \<lparr>zn_pattern_id = (pat_type pat, pv_timestamp (pt_D (pat_points pat))),
           zn_direction = Some (pat_direction pat),
           zn_base_price = d, zn_target_price = c,
           zn_fib = level_map d c (pat_direction pat),
           zn_entry_zone = Some \<lparr>z_upper = max d f, z_lower = min d f, z_is_active = True\<rparr>,
           zn_rebound_zone = Some \<lparr>z_upper = max f c, z_lower = min f c, z_is_active = True\<rparr>\<rparr>)"
proof -
  have m: "foldl (\<lambda>m (key, level). m(key \<mapsto> price_level pat \<bar>pv_price (pt_D (pat_points pat)) - pv_price (pt_C (pat_points pat))\<bar> level)) Map.empty fib_levels
      = level_map (pv_price (pt_D (pat_points pat))) (pv_price (pt_C (pat_points pat))) (pat_direction pat)"
    unfolding fib_fold by (rule ext) (simp add: level_map_def fib_levels_def price_level_def)
  have l: "level_map d c dir ''fib_886'' = Some (level_886 d c dir)" for d c dir
    by (simp add: level_map_def fib_levels_def level_886_def)
  show ?thesis
    unfolding create_fibonacci_zones_def Let_def m l by simp
qed

text \<open>
  Claim C4. A bearish pattern with D at 100 and C at 90 yields \<open>fib_618 = 93.82\<close>,
  \<open>fib_886 = 91.14\<close> and the entry zone \<open>[91.14, 100]\<close>; and two patterns that agree on
  the D price, the C price and the direction get the same level prices, entry zone and
  rebound zone, whatever their other fields are. The zones are always produced (the
  \<open>KeyError\<close> branch is never taken).
\<close>

theorem fibonacci_zones_deterministic:
  "(pat_direction pat = ''bearish'' \<and> pv_price (pt_D (pat_points pat)) = 100 \<and>
    pv_price (pt_C (pat_points pat)) = 90 \<longrightarrow>
      (\<exists>z ez. create_fibonacci_zones pat = Inr z \<and>
         zn_fib z ''fib_618'' = Some 93.82 \<and> zn_fib z ''fib_886'' = Some 91.14 \<and>
         zn_entry_zone z = Some ez \<and> z_lower ez = 91.14 \<and> z_upper ez = 100)) \<and>
   (pv_price (pt_D (pat_points p)) = pv_price (pt_D (pat_points q)) \<and>
    pv_price (pt_C (pat_points p)) = pv_price (pt_C (pat_points q)) \<and>
    pat_direction p = pat_direction q \<longrightarrow>
      (\<exists>z z'. create_fibonacci_zones p = Inr z \<and> create_fibonacci_zones q = Inr z' \<and>
         zn_fib z = zn_fib z' \<and> zn_entry_zone z = zn_entry_zone z' \<and>
         zn_rebound_zone z = zn_rebound_zone z' \<and> zn_base_price z = zn_base_price z' \<and>
         zn_target_price z = zn_target_price z' \<and> zn_direction z = zn_direction z'))"
proof -
  have a: "level_map 100 90 ''bearish'' ''fib_618'' = Some 93.82"
    by (simp add: level_map_def fib_levels_def)
  have b: "level_map 100 90 ''bearish'' ''fib_886'' = Some 91.14"
    by (simp add: level_map_def fib_levels_def)
  have c: "level_886 100 90 ''bearish'' = 91.14"
    by (simp add: level_886_def)
  show ?thesis
    unfolding create_fibonacci_zones_eq Let_def
    by (simp add: a b c)
qed

theorem fibonacci_zones_deterministic_witness:
  "(\<exists>z ez. create_fibonacci_zones bearish_example = Inr z \<and>
         zn_fib z ''fib_618'' = Some 93.82 \<and> zn_fib z ''fib_886'' = Some 91.14 \<and>
         zn_entry_zone z = Some ez \<and> z_lower ez = 91.14 \<and> z_upper ez = 100) \<and>
   (\<exists>z z'. create_fibonacci_zones bearish_example = Inr z \<and>
         create_fibonacci_zones (bearish_example\<lparr>pat_confidence := 1\<rparr>) = Inr z' \<and>
         zn_fib z = zn_fib z' \<and> zn_entry_zone z = zn_entry_zone z')"
proof -
  have a: "pat_direction bearish_example = ''bearish'' \<and>
           pv_price (pt_D (pat_points bearish_example)) = 100 \<and>
           pv_price (pt_C (pat_points bearish_example)) = 90"
    by (simp add: bearish_example_def make_pattern_def pv_def)
  show ?thesis
    using fibonacci_zones_deterministic
            [of bearish_example bearish_example "bearish_example\<lparr>pat_confidence := 1\<rparr>"] a
    by simp blast
qed

section \<open>Trendline points of a detected pattern\<close>

text \<open>A pattern as the detector builds it: the kinds of its five points form one of the
  two templates and its direction is the one derived from the kind of D.\<close>

definition template_pattern :: "pattern \<Rightarrow> bool" where
  "template_pattern pat =
     (let pts = pat_points pat in
      is_valid_sequence [pt_X pts, pt_A pts, pt_B pts, pt_C pts, pt_D pts] \<and>
      pat_direction pat = (if pv_type (pt_D pts) = ''high'' then ''bearish'' else ''bullish''))"

lemma template_kinds:
  assumes "template_pattern pat"
  shows "(pat_direction pat = ''bearish'' \<and> pv_type (pt_X (pat_points pat)) = ''high'' \<and>
            pv_type (pt_B (pat_points pat)) = ''high'' \<and> pv_type (pt_D (pat_points pat)) = ''high'') \<or>
         (pat_direction pat = ''bullish'' \<and> pv_type (pt_X (pat_points pat)) = ''low'' \<and>
            pv_type (pt_B (pat_points pat)) = ''low'' \<and> pv_type (pt_D (pat_points pat)) = ''low'')"
  using assms by (auto simp: template_pattern_def is_valid_sequence_def Let_def)

lemma collect_template:
  assumes "template_pattern pat"
  shows "collect_trendline_points pat =
           [tl_point_of (pt_X (pat_points pat)), tl_point_of (pt_B (pat_points pat)),
            tl_point_of (pt_D (pat_points pat))]"
  using template_kinds [OF assms] by (auto simp: collect_trendline_points_def Let_def)

lemma make_pattern_template:
  "is_valid_sequence [x, a, b, c, d] \<Longrightarrow> template_pattern (make_pattern x a b c d r)"
  by (simp add: template_pattern_def make_pattern_def)

lemma find_butterfly_patterns_template:
  "pat \<in> set (find_butterfly_patterns pivots) \<Longrightarrow> template_pattern pat"
  by (induction pivots rule: find_butterfly_patterns.induct)
     (auto simp: Let_def make_pattern_template split: if_splits)

lemma detect_patterns_template:
  "pat \<in> set (detect_patterns df) \<Longrightarrow> template_pattern pat"
  by (auto simp: detect_patterns_def Let_def find_butterfly_patterns_template split: if_splits)

text \<open>
  Claim C10. For a pattern whose five points match one of the two alternating templates
  (its direction being the one derived from D, as in every detector output), X, B and D
  are all High when the pattern is bearish and all Low when it is bullish; both trendline
  builders collect exactly 3 points, so neither takes its "fewer than 2 points" branch, and
  the ZoneManager trendline reports 3 touches and is valid.
\<close>

theorem trendline_always_three_points:
  assumes "template_pattern pat"
  shows "(pat_direction pat = ''bearish'' \<and> pv_type (pt_X (pat_points pat)) = ''high'' \<and>
            pv_type (pt_B (pat_points pat)) = ''high'' \<and> pv_type (pt_D (pat_points pat)) = ''high'' \<or>
          pat_direction pat = ''bullish'' \<and> pv_type (pt_X (pat_points pat)) = ''low'' \<and>
            pv_type (pt_B (pat_points pat)) = ''low'' \<and> pv_type (pt_D (pat_points pat)) = ''low'') \<and>
         length (collect_trendline_points pat) = 3 \<and>
         build_trendline df pat \<noteq> None \<and>
         (\<exists>tz. create_trendline_zones df pat = Some tz \<and> tz_touches tz = 3 \<and> tz_is_valid tz)"
proof -
  have c: "length (collect_trendline_points pat) = 3"
    by (simp add: collect_template [OF assms])
  have b: "build_trendline df pat \<noteq> None"
    by (simp add: build_trendline_def Let_def c split: prod.split)
  have z: "\<exists>tz. create_trendline_zones df pat = Some tz \<and> tz_touches tz = 3 \<and> tz_is_valid tz"
    by (simp add: create_trendline_zones_def Let_def c)
  show ?thesis using template_kinds [OF assms] c b z by blast
qed

theorem trendline_always_three_points_witness:
  "template_pattern bearish_example \<and>
   length (collect_trendline_points bearish_example) = 3 \<and>
   build_trendline [] bearish_example \<noteq> None \<and>
   (\<exists>tz. create_trendline_zones [] bearish_example = Some tz \<and> tz_touches tz = 3 \<and> tz_is_valid tz)"
proof -
  have t: "template_pattern bearish_example"
    by (simp add: bearish_example_def template_pattern_def make_pattern_def
          is_valid_sequence_def pv_def)
  show ?thesis
    using trendline_always_three_points [OF t, of "[]"] t by blast
qed

section \<open>Entry confirmation\<close>

lemma candle_gate_price:
  assumes "cc_confirmed (check_5m_candle_confirmation df_5m zs)"
  shows "df_5m \<noteq> [] \<and> cc_close_price (check_5m_candle_confirmation df_5m zs) = Some (close (last df_5m))"
  using assms
  by (auto simp: check_5m_candle_confirmation_def Let_def split: if_splits option.splits)

text \<open>The number of gates that pass.\<close>

definition gates_passed :: "candle list \<Rightarrow> candle list \<Rightarrow> pattern \<Rightarrow> zones \<Rightarrow> nat" where
  "gates_passed df_1h df_5m pat zs =
     length (filter id [cc_confirmed (check_5m_candle_confirmation df_5m zs),
                        check_trendline_confirmation df_1h df_5m pat zs,
                        check_zone_break_confirmation df_5m zs])"

text \<open>
  Claim C1. For every pattern, zone set and pair of candle series the confirmation check
  returns a result (it never raises); its three gate fields are the outcomes of the three
  gate functions and its score is the number of gates that pass; the entry signal is true
  iff all three gates are true, so exactly two passing gates leave it false; when the signal
  fires the direction is SELL for a bearish pattern and BUY otherwise, and the entry price
  is the close of the last fine-timeframe candle, which is the confirming candle's close.
  Without a signal the direction is unset and the price is the confirming candle's close
  if the candle gate fired and unset otherwise.
\<close>

theorem entry_signal_iff_all_gates:
  "\<exists>c. check_entry_confirmations df_1h df_5m pat zs = Inr c \<and>
     candle_5m_confirmation c = cc_confirmed (check_5m_candle_confirmation df_5m zs) \<and>
     trendline_break c = check_trendline_confirmation df_1h df_5m pat zs \<and>
     zone_break c = check_zone_break_confirmation df_5m zs \<and>
     total_score c = gates_passed df_1h df_5m pat zs \<and>
     (entry_signal c \<longleftrightarrow> candle_5m_confirmation c \<and> trendline_break c \<and> zone_break c) \<and>
     (gates_passed df_1h df_5m pat zs = 2 \<longrightarrow> \<not> entry_signal c) \<and>
     (entry_signal c \<longrightarrow>
        entry_direction c = Some (if pat_direction pat = ''bearish'' then ''SELL'' else ''BUY'') \<and>
        df_5m \<noteq> [] \<and> entry_price c = Some (close (last df_5m))) \<and>
     (\<not> entry_signal c \<longrightarrow>
        entry_direction c = None \<and>
        entry_price c = (if candle_5m_confirmation c then Some (close (last df_5m)) else None))"
proof -
  let ?g1 = "cc_confirmed (check_5m_candle_confirmation df_5m zs)"
  let ?g2 = "check_trendline_confirmation df_1h df_5m pat zs"
  let ?g3 = "check_zone_break_confirmation df_5m zs"
  show ?thesis
  proof (cases ?g1)
    case True
    note p = candle_gate_price [OF True]
    show ?thesis
      using True p
      by (cases ?g2; cases ?g3)
         (simp_all add: check_entry_confirmations_def gates_passed_def Let_def truthy_real_def)
  next
    case False
    then show ?thesis
      by (cases ?g2; cases ?g3)
         (simp_all add: check_entry_confirmations_def gates_passed_def Let_def truthy_real_def)
  qed
qed

text \<open>An example: highs falling by 10 per bar on the hourly series, the pattern's X, B, D
  on bars 0, 1, 2, and the zones built from the pattern.\<close>

definition bar :: "int \<Rightarrow> real \<Rightarrow> real \<Rightarrow> real \<Rightarrow> candle" where
  "bar t h l c = \<lparr>timestamp = t, c_open = c, high = h, low = l, close = c, volume = 1\<rparr>"

definition falling_pattern :: pattern where
  "falling_pattern =
     make_pattern (pv 0 130 ''high'') (pv 0 95 ''low'') (pv 1 120 ''high'')
       (pv 1 100 ''low'') (pv 2 110 ''high'') Map.empty"

definition falling_1h :: "candle list" where
  "falling_1h = [bar 0 130 95 100, bar 1 120 100 105, bar 2 110 95 100, bar 3 100 90 95, bar 4 90 80 85]"

definition falling_zones :: zones where
  "falling_zones =
     \<lparr>zn_pattern_id = (''butterfly'', 2), zn_direction = Some ''bearish'',
      zn_base_price = 110, zn_target_price = 100,
      zn_fib = level_map 110 100 ''bearish'',
      zn_entry_zone = Some \<lparr>z_upper = 110, z_lower = 101.14, z_is_active = True\<rparr>,
      zn_rebound_zone = Some \<lparr>z_upper = 101.14, z_lower = 100, z_is_active = True\<rparr>\<rparr>"

lemma falling_zones_created: "create_fibonacci_zones falling_pattern = Inr falling_zones"
  unfolding create_fibonacci_zones_eq
  by (simp add: falling_pattern_def make_pattern_def pv_def level_886_def falling_zones_def Let_def)

lemma falling_points:
  "collect_trendline_points falling_pattern =
     [\<lparr>tl_timestamp = 0, tl_price = 130, tl_index = 0\<rparr>,
      \<lparr>tl_timestamp = 1, tl_price = 120, tl_index = 1\<rparr>,
      \<lparr>tl_timestamp = 2, tl_price = 110, tl_index = 2\<rparr>]"
  by (simp add: collect_trendline_points_def falling_pattern_def make_pattern_def pv_def tl_point_of_def)

lemma falling_equation:
  "calculate_trendline_equation (collect_trendline_points falling_pattern) = (-10, 130)"
  unfolding falling_points by (simp add: calculate_trendline_equation_def Let_def)

lemma falling_touches: "count_trendline_touches falling_1h (-10) 130 ''bearish'' 0.002 = 5"
  by (simp add: count_trendline_touches_def falling_1h_def bar_def Let_def nth_Cons')

lemma falling_trendline:
  "build_trendline falling_1h falling_pattern =
     Some \<lparr>td_slope = -10, td_intercept = 130, td_touches = 5, td_current_price = 90,
           td_points = collect_trendline_points falling_pattern\<rparr>"
proof -
  have d: "pat_direction falling_pattern = ''bearish''"
    by (simp add: falling_pattern_def make_pattern_def pv_def)
  have l: "length (collect_trendline_points falling_pattern) = 3" "length falling_1h = 5"
    by (simp_all add: falling_points falling_1h_def)
  show ?thesis
    unfolding build_trendline_def Let_def falling_equation prod.case d falling_touches l by simp
qed

lemma falling_gates:
  "cc_confirmed (check_5m_candle_confirmation [bar 0 c c c, bar 1 c c c] falling_zones) = (c < 101.14)"
  "check_trendline_confirmation falling_1h [bar 0 c c c, bar 1 c c c] falling_pattern falling_zones = (c > 90)"
  "check_zone_break_confirmation [bar 0 c c c, bar 1 c c c] falling_zones = (c < 101.14)"
proof -
  have f: "zn_fib falling_zones ''fib_886'' = Some 101.14"
    by (simp add: falling_zones_def level_map_def fib_levels_def)
  show "cc_confirmed (check_5m_candle_confirmation [bar 0 c c c, bar 1 c c c] falling_zones) = (c < 101.14)"
    unfolding check_5m_candle_confirmation_def Let_def f
    by (simp add: truthy_real_def truthy_str_def falling_zones_def bar_def)
  have d: "pat_direction falling_pattern = ''bearish''"
    by (simp add: falling_pattern_def make_pattern_def pv_def)
  show "check_trendline_confirmation falling_1h [bar 0 c c c, bar 1 c c c] falling_pattern falling_zones = (c > 90)"
    unfolding check_trendline_confirmation_def falling_trendline d
    by (simp add: check_trendline_break_def bar_def)
  show "check_zone_break_confirmation [bar 0 c c c, bar 1 c c c] falling_zones = (c < 101.14)"
    by (simp add: check_zone_break_confirmation_def falling_zones_def truthy_str_def bar_def)
qed

theorem entry_signal_iff_all_gates_witness:
  "(\<exists>c. check_entry_confirmations falling_1h [bar 0 95 95 95, bar 1 95 95 95] falling_pattern falling_zones = Inr c \<and>
        entry_signal c \<and> total_score c = 3 \<and> entry_direction c = Some ''SELL'' \<and> entry_price c = Some 95) \<and>
   (\<exists>c. check_entry_confirmations falling_1h [bar 0 80 80 80, bar 1 80 80 80] falling_pattern falling_zones = Inr c \<and>
        \<not> entry_signal c \<and> total_score c = 2 \<and> candle_5m_confirmation c \<and> zone_break c \<and>
        \<not> trendline_break c \<and> entry_price c = Some 80)"
proof -
  have d: "pat_direction falling_pattern = ''bearish''"
    by (simp add: falling_pattern_def make_pattern_def pv_def)
  have a: "\<exists>c. check_entry_confirmations falling_1h [bar 0 95 95 95, bar 1 95 95 95] falling_pattern falling_zones = Inr c \<and>
        entry_signal c \<and> total_score c = 3 \<and> entry_direction c = Some ''SELL'' \<and> entry_price c = Some 95"
    using entry_signal_iff_all_gates [of falling_1h "[bar 0 95 95 95, bar 1 95 95 95]" falling_pattern falling_zones]
      falling_gates [of 95] d
    by (auto simp: gates_passed_def bar_def numeral_3_eq_3)
  have b: "\<exists>c. check_entry_confirmations falling_1h [bar 0 80 80 80, bar 1 80 80 80] falling_pattern falling_zones = Inr c \<and>
        \<not> entry_signal c \<and> total_score c = 2 \<and> candle_5m_confirmation c \<and> zone_break c \<and>
        \<not> trendline_break c \<and> entry_price c = Some 80"
    using entry_signal_iff_all_gates [of falling_1h "[bar 0 80 80 80, bar 1 80 80 80]" falling_pattern falling_zones]
      falling_gates [of 80] d
    by (auto simp: gates_passed_def bar_def numeral_3_eq_3)
  show ?thesis using a b by blast
qed

section \<open>Cleanup of the position registry\<close>

text \<open>A position that cleanup is to remove: Closed, with a close timestamp older than the
  cutoff.\<close>

definition closed_before :: "int \<Rightarrow> position \<Rightarrow> bool" where
  "closed_before cutoff p =
     (pos_status p = ''CLOSED'' \<and> (case pos_close_time p of None \<Rightarrow> False | Some t \<Rightarrow> t < cutoff))"

lemma foldl_delete:
  "foldl (\<lambda>r k. AList.delete k r) reg ks = filter (\<lambda>kp. fst kp \<notin> set ks) reg"
proof (induction ks arbitrary: reg)
  case Nil
  show ?case by simp
next
  case (Cons k ks)
  have "AList.delete k reg = filter (\<lambda>kp. fst kp \<noteq> k) reg"
    by (induction reg) auto
  then show ?case
    using Cons.IH [of "AList.delete k reg"] by (simp add: conj_commute)
qed

lemma remove_closed_before_keys:
  "remove_closed_before cutoff reg =
     filter (\<lambda>kp. fst kp \<notin> fst ` {kp \<in> set reg. closed_before cutoff (snd kp)}) reg"
proof -
  have e: "(\<lambda>(position_id, p). pos_status p = ''CLOSED'' \<and>
            (case pos_close_time p of None \<Rightarrow> False | Some t \<Rightarrow> t < cutoff))
        = (\<lambda>kp. closed_before cutoff (snd kp))"
    by (auto simp: closed_before_def)
  have s: "set (map fst (filter (\<lambda>kp. closed_before cutoff (snd kp)) reg)) =
           fst ` {kp \<in> set reg. closed_before cutoff (snd kp)}"
    by auto
  show ?thesis
    unfolding remove_closed_before_def Let_def foldl_delete e s by (rule refl)
qed

lemma remove_closed_before_filter:
  assumes "distinct (map fst reg)"
  shows "remove_closed_before cutoff reg = filter (\<lambda>kp. \<not> closed_before cutoff (snd kp)) reg"
  unfolding remove_closed_before_keys
proof (rule filter_cong [OF refl])
  fix kp assume m: "kp \<in> set reg"
  have "fst kp \<in> fst ` {kp \<in> set reg. closed_before cutoff (snd kp)} \<longleftrightarrow> closed_before cutoff (snd kp)"
  proof
    assume "fst kp \<in> fst ` {kp \<in> set reg. closed_before cutoff (snd kp)}"
    then obtain kp' where k: "kp' \<in> set reg" "closed_before cutoff (snd kp')" "fst kp' = fst kp"
      by auto
    have "kp' = kp"
      using assms m k(1) k(3) by (metis eq_key_imp_eq_value prod.collapse)
    with k(2) show "closed_before cutoff (snd kp)" by simp
  next
    assume "closed_before cutoff (snd kp)"
    with m show "fst kp \<in> fst ` {kp \<in> set reg. closed_before cutoff (snd kp)}" by auto
  qed
  then show "(fst kp \<notin> fst ` {kp \<in> set reg. closed_before cutoff (snd kp)}) = (\<not> closed_before cutoff (snd kp))"
    by simp
qed

lemma remove_closed_before_idem:
  "remove_closed_before cutoff (remove_closed_before cutoff reg) = remove_closed_before cutoff reg"
proof -
  let ?K = "fst ` {kp \<in> set reg. closed_before cutoff (snd kp)}"
  let ?r = "filter (\<lambda>kp. fst kp \<notin> ?K) reg"
  have "\<forall>kp \<in> set ?r. fst kp \<notin> fst ` {kp \<in> set ?r. closed_before cutoff (snd kp)}"
    by auto
  then have "filter (\<lambda>kp. fst kp \<notin> fst ` {kp \<in> set ?r. closed_before cutoff (snd kp)}) ?r = ?r"
    by (rule filter_True)
  then show ?thesis
    unfolding remove_closed_before_keys .
qed

text \<open>
  Claim C8. On a registry (a dict, so with distinct ids) cleanup keeps, in order, exactly the
  positions that are not both Closed and closed before the cutoff \<open>now - days\<close>; an Active
  position is never removed, whatever its age; removing with the same cutoff a second time
  changes nothing, and neither does a second cleanup when the clock gives the same time.
\<close>

theorem cleanup_removes_closed_old:
  assumes "distinct (map fst (active_positions st))"
  shows "active_positions (cleanup_old_positions v days st) =
           filter (\<lambda>kp. \<not> closed_before (v_now v (calls st) - days * 86400) (snd kp))
             (active_positions st) \<and>
         (\<forall>kp \<in> set (active_positions st). pos_status (snd kp) = ''ACTIVE'' \<longrightarrow>
              kp \<in> set (active_positions (cleanup_old_positions v days st))) \<and>
         remove_closed_before cutoff (remove_closed_before cutoff reg) =
           remove_closed_before cutoff reg \<and>
         (v_now v (calls st @ [Now]) = v_now v (calls st) \<longrightarrow>
            active_positions (cleanup_old_positions v days (cleanup_old_positions v days st)) =
            active_positions (cleanup_old_positions v days st))"
proof -
  have a: "active_positions (cleanup_old_positions v days st) =
           filter (\<lambda>kp. \<not> closed_before (v_now v (calls st) - days * 86400) (snd kp))
             (active_positions st)"
    by (simp add: cleanup_old_positions_def Let_def remove_closed_before_filter [OF assms])
  have b: "\<forall>kp \<in> set (active_positions st). pos_status (snd kp) = ''ACTIVE'' \<longrightarrow>
              kp \<in> set (active_positions (cleanup_old_positions v days st))"
    unfolding a by (auto simp: closed_before_def)
  have c: "v_now v (calls st @ [Now]) = v_now v (calls st) \<longrightarrow>
            active_positions (cleanup_old_positions v days (cleanup_old_positions v days st)) =
            active_positions (cleanup_old_positions v days st)"
    by (simp add: cleanup_old_positions_def Let_def remove_closed_before_idem)
  show ?thesis
    using a b c remove_closed_before_idem by blast
qed

section \<open>Capacity check\<close>

text \<open>
  Claim C5. When the number of Active positions is at least the configured maximum,
  handling an entry signal changes nothing: no call is made to the venue (no order is
  placed) and the registry keeps the same ids and the same Active count.
\<close>

theorem entry_rejected_at_capacity:
  assumes "int (get_active_positions_count (position_manager bs)) \<ge> cfg_max_positions cfg"
  shows "handle_entry_signal v cfg pat zs conf bs = bs \<and>
         calls (position_manager (handle_entry_signal v cfg pat zs conf bs)) = calls (position_manager bs) \<and>
         map fst (active_positions (position_manager (handle_entry_signal v cfg pat zs conf bs))) =
           map fst (active_positions (position_manager bs)) \<and>
         get_active_positions_count (position_manager (handle_entry_signal v cfg pat zs conf bs)) =
           get_active_positions_count (position_manager bs)"
  using assms by (simp add: handle_entry_signal_def)

section \<open>Take-profit levels\<close>

text \<open>The candidate targets: the levels \<open>fib_618\<close>, \<open>fib_500\<close>, \<open>fib_382\<close> present in the
  zones, then the C price.\<close>

definition tp_candidates :: "pattern \<Rightarrow> zones \<Rightarrow> real list" where
  "tp_candidates pat zs =
     concat (map (\<lambda>level. case zn_fib zs level of None \<Rightarrow> [] | Some v \<Rightarrow> [v])
               [''fib_618'', ''fib_500'', ''fib_382'']) @ [pv_price (pt_C (pat_points pat))]"

lemma calculate_take_profits_alt:
  "calculate_take_profits pat zs =
     take 3 (if pat_direction pat = ''bearish'' then sort (tp_candidates pat zs)
             else rev (sort (tp_candidates pat zs)))"
  unfolding calculate_take_profits_def tp_candidates_def Let_def by (rule refl)




lemma take_profits_order:
  "(pat_direction pat = ''bearish'' \<longrightarrow> sorted (calculate_take_profits pat zs)) \<and>
   (pat_direction pat \<noteq> ''bearish'' \<longrightarrow> sorted (rev (calculate_take_profits pat zs)))"
proof -
  have "sorted (rev (take 3 (rev xs)))" if "sorted xs" for xs :: "real list"
    using that by (simp add: rev_take sorted_wrt_drop)
  then show ?thesis
    unfolding calculate_take_profits_alt by (simp add: sorted_wrt_take)
qed

lemma level_map_lookup:
  "level_map d c direction ''fib_618'' =
     Some (if direction = ''bearish'' then d - \<bar>d - c\<bar> * 0.618 else d + \<bar>d - c\<bar> * 0.618)"
  "level_map d c direction ''fib_500'' =
     Some (if direction = ''bearish'' then d - \<bar>d - c\<bar> * 0.5 else d + \<bar>d - c\<bar> * 0.5)"
  "level_map d c direction ''fib_382'' =
     Some (if direction = ''bearish'' then d - \<bar>d - c\<bar> * 0.382 else d + \<bar>d - c\<bar> * 0.382)"
  by (simp_all add: level_map_def fib_levels_def)

lemma tp_candidates_created:
  assumes "create_fibonacci_zones pat = Inr zs"
  shows "tp_candidates pat zs =
           (let d = pv_price (pt_D (pat_points pat)); c = pv_price (pt_C (pat_points pat)) in
            if pat_direction pat = ''bearish''
            then [d - \<bar>d - c\<bar> * 0.618, d - \<bar>d - c\<bar> * 0.5, d - \<bar>d - c\<bar> * 0.382, c]
            else [d + \<bar>d - c\<bar> * 0.618, d + \<bar>d - c\<bar> * 0.5, d + \<bar>d - c\<bar> * 0.382, c])"
proof -
  have z: "zn_fib zs = level_map (pv_price (pt_D (pat_points pat))) (pv_price (pt_C (pat_points pat)))
             (pat_direction pat)"
    using assms unfolding create_fibonacci_zones_eq Let_def by auto
  show ?thesis
    unfolding tp_candidates_def z by (simp add: level_map_lookup Let_def)
qed

lemma sort4_bearish:
  fixes c :: real
  assumes "c \<le> l1" "l1 \<le> l2" "l2 \<le> l3"
  shows "sort [l1, l2, l3, c] = [c, l1, l2, l3]"
  using assms by simp

lemma sort4_bullish:
  fixes c :: real
  assumes "l1 \<le> c" "l2 \<le> l1" "l3 \<le> l2"
  shows "sort [l1, l2, l3, c] = [l3, l2, l1, c]"
  using assms by simp

lemma take_profits_created_bearish:
  assumes z: "create_fibonacci_zones pat = Inr zs"
    and b: "pat_direction pat = ''bearish''"
    and o: "pv_price (pt_C (pat_points pat)) \<le> pv_price (pt_D (pat_points pat))"
  shows "calculate_take_profits pat zs =
           (let d = pv_price (pt_D (pat_points pat)); c = pv_price (pt_C (pat_points pat)) in
            [c, d - (d - c) * 0.618, d - (d - c) * 0.5])"
proof -
  define d where "d = pv_price (pt_D (pat_points pat))"
  define c where "c = pv_price (pt_C (pat_points pat))"
  have cd: "c \<le> d" using o by (simp add: c_def d_def)
  have t: "tp_candidates pat zs = [d - (d - c) * 0.618, d - (d - c) * 0.5, d - (d - c) * 0.382, c]"
    using tp_candidates_created [OF z] b cd by (simp add: Let_def c_def d_def)
  have s: "sort [d - (d - c) * 0.618, d - (d - c) * 0.5, d - (d - c) * 0.382, c]
           = [c, d - (d - c) * 0.618, d - (d - c) * 0.5, d - (d - c) * 0.382]"
    using cd by (intro sort4_bearish) (auto simp: field_simps)
  show ?thesis
    unfolding calculate_take_profits_alt t s using b by (simp add: Let_def c_def d_def)
qed

lemma take_profits_created_bullish:
  assumes z: "create_fibonacci_zones pat = Inr zs"
    and b: "pat_direction pat \<noteq> ''bearish''"
    and o: "pv_price (pt_D (pat_points pat)) \<le> pv_price (pt_C (pat_points pat))"
  shows "calculate_take_profits pat zs =
           (let d = pv_price (pt_D (pat_points pat)); c = pv_price (pt_C (pat_points pat)) in
            [c, d + (c - d) * 0.618, d + (c - d) * 0.5])"
proof -
  define d where "d = pv_price (pt_D (pat_points pat))"
  define c where "c = pv_price (pt_C (pat_points pat))"
  have cd: "d \<le> c" using o by (simp add: c_def d_def)
  then have a: "\<bar>d - c\<bar> = c - d" by simp
  have t: "tp_candidates pat zs = [d + (c - d) * 0.618, d + (c - d) * 0.5, d + (c - d) * 0.382, c]"
    using tp_candidates_created [OF z] b a by (simp add: Let_def c_def d_def)
  have s: "sort [d + (c - d) * 0.618, d + (c - d) * 0.5, d + (c - d) * 0.382, c]
           = [d + (c - d) * 0.382, d + (c - d) * 0.5, d + (c - d) * 0.618, c]"
    using cd by (intro sort4_bullish) (auto simp: field_simps)
  show ?thesis
    unfolding calculate_take_profits_alt t s using b by (simp add: Let_def c_def d_def)
qed














section \<open>Monitoring pass\<close>

text \<open>What the take-profit loop does to one leg: a leg whose order id is not among the
  open ids is marked executed at the current price.\<close>

definition mark_filled :: "string list \<Rightarrow> real \<Rightarrow> tp_order \<Rightarrow> tp_order" where
  "mark_filled open_order_ids current_price tp =
     (if not_in_open (tpo_order_id tp) open_order_ids
      then tp\<lparr>tpo_executed := True, tpo_execution_price := Some current_price\<rparr> else tp)"

text \<open>The trade-exit notification of a filled leg.\<close>

definition tp_exit_event :: "position \<Rightarrow> tp_order \<Rightarrow> call" where
  "tp_exit_event pos tp =
     NotifyTradeExit (pos_symbol pos) (pos_direction pos) (pos_entry_price pos) (tpo_price tp)
       (tpo_size tp)
       (if pos_direction pos = Some ''BUY'' then (tpo_price tp - pos_entry_price pos) * tpo_size tp
        else (pos_entry_price pos - tpo_price tp) * tpo_size tp)
       (TakeProfitReached (tpo_level tp))"

lemma check_take_profits_eq:
  "check_take_profits pos ids price tps tr =
     (map (mark_filled ids price) tps,
      tr @ map (tp_exit_event pos) (filter (\<lambda>tp. not_in_open (tpo_order_id tp) ids) tps))"
  by (induction tps arbitrary: tr)
     (simp_all add: mark_filled_def handle_take_profit_hit_def tp_exit_event_def Let_def)

lemma cancel_remaining_orders_trace:
  "\<exists>ext. cancel_remaining_orders pos tr =
      tr @ map (\<lambda>tp. CancelOrder (tpo_order_id tp) (pos_symbol pos))
             (filter (\<lambda>tp. \<not> tpo_executed tp) (pos_tp_orders pos)) @ ext"
  by (simp add: cancel_remaining_orders_def Let_def)

text \<open>The PnL realized at the stop price over the full position size.\<close>

definition stop_loss_pnl :: "position \<Rightarrow> real" where
  "stop_loss_pnl pos =
     (if pos_direction pos = Some ''BUY''
      then (pos_stop_loss pos - pos_entry_price pos) * pos_position_size pos
      else (pos_entry_price pos - pos_stop_loss pos) * pos_position_size pos)"

text \<open>The open order ids the status check reads when it starts from trace \<open>tr\<close>, and
  whether every open order has an id (otherwise the check raises).\<close>

definition open_ids_at :: "venue \<Rightarrow> call list \<Rightarrow> string \<Rightarrow> string list" where
  "open_ids_at v tr symbol =
     List.map_filter o_id (v_get_open_orders v (tr @ [GetCurrentPrice symbol]) symbol)"

definition ids_readable :: "venue \<Rightarrow> call list \<Rightarrow> string \<Rightarrow> bool" where
  "ids_readable v tr symbol =
     (\<not> list_ex (\<lambda>ord. o_id ord = None) (v_get_open_orders v (tr @ [GetCurrentPrice symbol]) symbol))"

lemma check_position_status_trace:
  "\<exists>ext. snd (check_position_status v pos tr) = tr @ ext"
  unfolding check_position_status_def Let_def check_take_profits_eq
  by (simp add: handle_stop_loss_hit_def cancel_remaining_orders_def Let_def)

lemma check_position_status_closed:
  assumes r: "ids_readable v tr (pos_symbol pos)"
    and s: "pos_stop_order_id pos = Some sid" "sid \<noteq> []"
    and g: "sid \<notin> set (open_ids_at v tr (pos_symbol pos))"
  shows "\<exists>pos1 tr1. check_position_status v pos tr = (Inr pos1, tr1) \<and>
           pos_status pos1 = ''CLOSED'' \<and> pos_close_reason pos1 = Some ''STOP_LOSS'' \<and>
           pos_close_time pos1 \<noteq> None \<and>
           pos_tp_orders pos1 =
             map (mark_filled (open_ids_at v tr (pos_symbol pos)) (v_get_current_price v tr (pos_symbol pos)))
               (pos_tp_orders pos) \<and>
           NotifyTradeExit (pos_symbol pos) (pos_direction pos) (pos_entry_price pos)
             (pos_stop_loss pos) (pos_position_size pos) (stop_loss_pnl pos) StopLossReached \<in> set tr1 \<and>
           (\<forall>leg \<in> set (pos_tp_orders pos1). \<not> tpo_executed leg \<longrightarrow>
              CancelOrder (tpo_order_id leg) (pos_symbol pos) \<in> set tr1)"
proof -
  let ?sym = "pos_symbol pos"
  let ?ids = "open_ids_at v tr ?sym"
  let ?price = "v_get_current_price v tr ?sym"
  let ?pos1 = "pos\<lparr>pos_tp_orders := map (mark_filled ?ids ?price) (pos_tp_orders pos)\<rparr>"
  let ?tr3 = "(tr @ [GetCurrentPrice ?sym]) @ [GetOpenOrders ?sym] @
               map (tp_exit_event pos) (filter (\<lambda>tp. not_in_open (tpo_order_id tp) ?ids) (pos_tp_orders pos))"
  have st: "truthy_str (pos_stop_order_id ?pos1) \<and> not_in_open (pos_stop_order_id ?pos1) ?ids"
    using s g by (simp add: truthy_str_def not_in_open_def)
  have res: "check_position_status v pos tr =
               (Inr (fst (handle_stop_loss_hit v ?pos1 ?price ?tr3)),
                snd (handle_stop_loss_hit v ?pos1 ?price ?tr3))"
    unfolding check_position_status_def Let_def check_take_profits_eq
    using r st by (simp add: ids_readable_def open_ids_at_def case_prod_beta)
  have n: "NotifyTradeExit ?sym (pos_direction pos) (pos_entry_price pos) (pos_stop_loss pos)
             (pos_position_size pos) (stop_loss_pnl pos) StopLossReached
           \<in> set (snd (handle_stop_loss_hit v ?pos1 ?price ?tr3))"
    by (simp add: handle_stop_loss_hit_def Let_def stop_loss_pnl_def cancel_remaining_orders_def)
  have k: "\<forall>leg \<in> set (pos_tp_orders (fst (handle_stop_loss_hit v ?pos1 ?price ?tr3))).
             \<not> tpo_executed leg \<longrightarrow>
             CancelOrder (tpo_order_id leg) ?sym \<in> set (snd (handle_stop_loss_hit v ?pos1 ?price ?tr3))"
    by (simp add: handle_stop_loss_hit_def Let_def cancel_remaining_orders_def)
  have f: "pos_status (fst (handle_stop_loss_hit v ?pos1 ?price ?tr3)) = ''CLOSED'' \<and>
           pos_close_reason (fst (handle_stop_loss_hit v ?pos1 ?price ?tr3)) = Some ''STOP_LOSS'' \<and>
           pos_close_time (fst (handle_stop_loss_hit v ?pos1 ?price ?tr3)) \<noteq> None \<and>
           pos_tp_orders (fst (handle_stop_loss_hit v ?pos1 ?price ?tr3)) =
             map (mark_filled ?ids ?price) (pos_tp_orders pos)"
    by (simp add: handle_stop_loss_hit_def Let_def)
  show ?thesis
    unfolding res using n k f by blast
qed

text \<open>What the loop body does to one position.\<close>

definition processed :: "venue \<Rightarrow> position \<Rightarrow> call list \<Rightarrow> position" where
  "processed v pos tr =
     (case fst (check_position_status v pos tr) of Inl e \<Rightarrow> pos | Inr pos1 \<Rightarrow> pos1)"

lemma monitor_loop_Cons:
  "monitor_loop v ((position_id, pos) # rest) tr =
     ((position_id, processed v pos tr) #
        fst (monitor_loop v rest (snd (check_position_status v pos tr))),
      snd (monitor_loop v rest (snd (check_position_status v pos tr))))"
  by (simp add: processed_def split: prod.splits sum.splits)

lemma monitor_loop_append:
  "monitor_loop v (xs @ ys) tr =
     (fst (monitor_loop v xs tr) @ fst (monitor_loop v ys (snd (monitor_loop v xs tr))),
      snd (monitor_loop v ys (snd (monitor_loop v xs tr))))"
proof (induction xs arbitrary: tr)
  case Nil
  show ?case by simp
next
  case (Cons x xs)
  obtain position_id pos where x: "x = (position_id, pos)" by (cases x)
  show ?case
    unfolding x append_Cons monitor_loop_Cons Cons.IH by simp
qed

lemma monitor_loop_keys: "map fst (fst (monitor_loop v reg tr)) = map fst reg"
proof (induction reg arbitrary: tr)
  case Nil
  show ?case by simp
next
  case (Cons x xs)
  obtain position_id pos where x: "x = (position_id, pos)" by (cases x)
  show ?case
    unfolding x monitor_loop_Cons using Cons.IH by simp
qed

lemma monitor_loop_trace: "\<exists>ext. snd (monitor_loop v reg tr) = tr @ ext"
proof (induction reg arbitrary: tr)
  case Nil
  show ?case by simp
next
  case (Cons x xs)
  obtain position_id pos where x: "x = (position_id, pos)" by (cases x)
  obtain e1 where e1: "snd (check_position_status v pos tr) = tr @ e1"
    using check_position_status_trace by blast
  obtain e2 where "snd (monitor_loop v xs (tr @ e1)) = (tr @ e1) @ e2"
    using Cons.IH by blast
  then show ?case
    unfolding x monitor_loop_Cons e1 by simp
qed

lemma monitor_loop_nth:
  "fst (monitor_loop v (pre @ (position_id, pos) # post) tr) ! length pre =
     (position_id, processed v pos (snd (monitor_loop v pre tr)))"
proof -
  have "length (fst (monitor_loop v pre tr)) = length pre"
    using monitor_loop_keys [of v pre tr] by (metis length_map)
  then show ?thesis
    unfolding monitor_loop_append monitor_loop_Cons by (simp add: nth_append)
qed

lemma monitor_loop_keeps_trace:
  "set (snd (check_position_status v pos (snd (monitor_loop v pre tr))))
     \<subseteq> set (snd (monitor_loop v (pre @ (position_id, pos) # post) tr))"
proof -
  obtain ext where "snd (monitor_loop v post (snd (check_position_status v pos (snd (monitor_loop v pre tr)))))
                    = snd (check_position_status v pos (snd (monitor_loop v pre tr))) @ ext"
    using monitor_loop_trace by blast
  then show ?thesis
    unfolding monitor_loop_append monitor_loop_Cons by simp
qed

text \<open>
  Claim C6. A monitoring pass keeps the ids of the registry, and the position at any place
  of the registry is the result of the status check on it, started from the trace the
  positions before it left, whether or not any of those raised. If for that position the
  open order ids can be read and its recorded (non-empty) stop order id is not among them,
  it ends Closed with reason \<open>STOP_LOSS\<close>, a trade-exit notification carries the PnL at the
  stop price over the full size (\<open>(stop - entry) * size\<close> for BUY, \<open>(entry - stop) * size\<close>
  otherwise), and a cancel is sent for every leg not marked executed.
\<close>

theorem monitor_closes_on_missing_stop:
  "map fst (active_positions (monitor_positions v st)) = map fst (active_positions st) \<and>
   (active_positions st = pre @ (position_id, pos) # post \<longrightarrow>
      active_positions (monitor_positions v st) ! length pre =
        (position_id, processed v pos (snd (monitor_loop v pre (calls st)))) \<and>
      (ids_readable v (snd (monitor_loop v pre (calls st))) (pos_symbol pos) \<and>
       pos_stop_order_id pos = Some sid \<and> sid \<noteq> [] \<and>
       sid \<notin> set (open_ids_at v (snd (monitor_loop v pre (calls st))) (pos_symbol pos)) \<longrightarrow>
         (\<exists>pos1. active_positions (monitor_positions v st) ! length pre = (position_id, pos1) \<and>
            pos_status pos1 = ''CLOSED'' \<and> pos_close_reason pos1 = Some ''STOP_LOSS'' \<and>
            pos_tp_orders pos1 = map (mark_filled (open_ids_at v (snd (monitor_loop v pre (calls st))) (pos_symbol pos))
                                        (v_get_current_price v (snd (monitor_loop v pre (calls st))) (pos_symbol pos)))
                                   (pos_tp_orders pos) \<and>
            NotifyTradeExit (pos_symbol pos) (pos_direction pos) (pos_entry_price pos)
              (pos_stop_loss pos) (pos_position_size pos) (stop_loss_pnl pos) StopLossReached
              \<in> set (calls (monitor_positions v st)) \<and>
            (\<forall>leg \<in> set (pos_tp_orders pos1). \<not> tpo_executed leg \<longrightarrow>
               CancelOrder (tpo_order_id leg) (pos_symbol pos) \<in> set (calls (monitor_positions v st))))))"
proof -
  have m: "active_positions (monitor_positions v st) = fst (monitor_loop v (active_positions st) (calls st))"
          "calls (monitor_positions v st) = snd (monitor_loop v (active_positions st) (calls st))"
    by (simp_all add: monitor_positions_def case_prod_beta)
  have k: "map fst (active_positions (monitor_positions v st)) = map fst (active_positions st)"
    unfolding m by (rule monitor_loop_keys)
  {
    assume reg: "active_positions st = pre @ (position_id, pos) # post"
    let ?tr0 = "snd (monitor_loop v pre (calls st))"
    have n: "active_positions (monitor_positions v st) ! length pre = (position_id, processed v pos ?tr0)"
      unfolding m reg by (rule monitor_loop_nth)
    {
      assume r: "ids_readable v ?tr0 (pos_symbol pos)"
        and s: "pos_stop_order_id pos = Some sid" "sid \<noteq> []"
        and g: "sid \<notin> set (open_ids_at v ?tr0 (pos_symbol pos))"
      from check_position_status_closed [OF r s g]
      obtain pos1 tr1 where c: "check_position_status v pos ?tr0 = (Inr pos1, tr1)"
        and p: "pos_status pos1 = ''CLOSED''" "pos_close_reason pos1 = Some ''STOP_LOSS''"
          "pos_tp_orders pos1 = map (mark_filled (open_ids_at v ?tr0 (pos_symbol pos))
                                        (v_get_current_price v ?tr0 (pos_symbol pos)))
                                   (pos_tp_orders pos)"
        and e: "NotifyTradeExit (pos_symbol pos) (pos_direction pos) (pos_entry_price pos)
                  (pos_stop_loss pos) (pos_position_size pos) (stop_loss_pnl pos) StopLossReached \<in> set tr1"
        and l: "\<forall>leg \<in> set (pos_tp_orders pos1). \<not> tpo_executed leg \<longrightarrow>
                  CancelOrder (tpo_order_id leg) (pos_symbol pos) \<in> set tr1"
        by blast
      have pr: "processed v pos ?tr0 = pos1"
        using c by (simp add: processed_def)
      have sub: "set tr1 \<subseteq> set (calls (monitor_positions v st))"
        unfolding m reg using monitor_loop_keeps_trace [of v pos pre "calls st" position_id post] c by simp
      have "\<exists>pos1. active_positions (monitor_positions v st) ! length pre = (position_id, pos1) \<and>
            pos_status pos1 = ''CLOSED'' \<and> pos_close_reason pos1 = Some ''STOP_LOSS'' \<and>
            pos_tp_orders pos1 = map (mark_filled (open_ids_at v ?tr0 (pos_symbol pos))
                                        (v_get_current_price v ?tr0 (pos_symbol pos)))
                                   (pos_tp_orders pos) \<and>
            NotifyTradeExit (pos_symbol pos) (pos_direction pos) (pos_entry_price pos)
              (pos_stop_loss pos) (pos_position_size pos) (stop_loss_pnl pos) StopLossReached
              \<in> set (calls (monitor_positions v st)) \<and>
            (\<forall>leg \<in> set (pos_tp_orders pos1). \<not> tpo_executed leg \<longrightarrow>
               CancelOrder (tpo_order_id leg) (pos_symbol pos) \<in> set (calls (monitor_positions v st)))"
        using n pr p e l sub by blast
    }
    note closed = this
    have "active_positions (monitor_positions v st) ! length pre =
        (position_id, processed v pos ?tr0) \<and>
      (ids_readable v ?tr0 (pos_symbol pos) \<and>
       pos_stop_order_id pos = Some sid \<and> sid \<noteq> [] \<and>
       sid \<notin> set (open_ids_at v ?tr0 (pos_symbol pos)) \<longrightarrow>
         (\<exists>pos1. active_positions (monitor_positions v st) ! length pre = (position_id, pos1) \<and>
            pos_status pos1 = ''CLOSED'' \<and> pos_close_reason pos1 = Some ''STOP_LOSS'' \<and>
            pos_tp_orders pos1 = map (mark_filled (open_ids_at v ?tr0 (pos_symbol pos))
                                        (v_get_current_price v ?tr0 (pos_symbol pos)))
                                   (pos_tp_orders pos) \<and>
            NotifyTradeExit (pos_symbol pos) (pos_direction pos) (pos_entry_price pos)
              (pos_stop_loss pos) (pos_position_size pos) (stop_loss_pnl pos) StopLossReached
              \<in> set (calls (monitor_positions v st)) \<and>
            (\<forall>leg \<in> set (pos_tp_orders pos1). \<not> tpo_executed leg \<longrightarrow>
               CancelOrder (tpo_order_id leg) (pos_symbol pos) \<in> set (calls (monitor_positions v st)))))"
      using n closed by blast
  }
  then show ?thesis using k by blast
qed

section \<open>Examples\<close>

text \<open>A venue that accepts every order, whose first answer to \<open>get_open_orders\<close> holds an
  order without an id and whose later answers list the single open order \<open>tp1\<close>.\<close>

definition test_venue :: venue where
  "test_venue =
     \<lparr>v_get_current_price = (\<lambda>tr symbol. 100),
      v_get_open_orders = (\<lambda>tr symbol. if tr = [GetCurrentPrice symbol] then [\<lparr>o_id = None\<rparr>]
                                         else [\<lparr>o_id = Some ''tp1''\<rparr>]),
      v_place_market_order = (\<lambda>tr symbol side amount. Some \<lparr>o_id = Some ''m1''\<rparr>),
      v_place_limit_order = (\<lambda>tr symbol side amount price. Some \<lparr>o_id = Some ''l1''\<rparr>),
      v_place_stop_loss_order = (\<lambda>tr symbol side amount price. Some \<lparr>o_id = Some ''s1''\<rparr>),
      v_get_available_balance = (\<lambda>tr currency. 1000),
      v_calculate_position_size = (\<lambda>tr symbol risk entry stop. 3),
      v_now = (\<lambda>tr. 1000000),
      v_strftime = (\<lambda>t. ''19700112_134640'')\<rparr>"

definition tp_leg :: "string \<Rightarrow> real \<Rightarrow> nat \<Rightarrow> tp_order" where
  "tp_leg order_id price level =
     \<lparr>tpo_order_id = Some order_id, tpo_price = price, tpo_size = 1, tpo_level = level,
      tpo_executed = False, tpo_execution_price = None\<rparr>"

definition open_position :: "string \<Rightarrow> position" where
  "open_position position_id =
     \<lparr>pos_id = position_id, pos_symbol = ''BTCUSDT'', pos_direction = Some ''SELL'',
      pos_entry_price = 101, pos_position_size = 3, pos_stop_loss = 110.055,
      pos_take_profits = [100, 103.82, 105], pos_entry_time = 0,
      pos_pattern = falling_pattern, pos_zones = falling_zones,
      pos_status = ''ACTIVE'', pos_close_reason = None, pos_close_time = None,
      pos_entry_order_id = Some ''m1'', pos_stop_order_id = Some ''s1'',
      pos_tp_orders = [tp_leg ''tp1'' 100 1, tp_leg ''tp2'' 103.82 2]\<rparr>"

definition closed_position :: "string \<Rightarrow> int \<Rightarrow> position" where
  "closed_position position_id t =
     (open_position position_id)\<lparr>pos_status := ''CLOSED'', pos_close_reason := Some ''STOP_LOSS'',
                                  pos_close_time := Some t\<rparr>"

definition two_positions :: pm_state where
  "two_positions =
     \<lparr>active_positions = [(''a'', open_position ''a''), (''b'', open_position ''b'')], calls = []\<rparr>"

lemma first_raises:
  "check_position_status test_venue (open_position ''a'') [] =
     (Inl KeyError, [GetCurrentPrice ''BTCUSDT'', GetOpenOrders ''BTCUSDT''])"
  by (simp add: check_position_status_def Let_def test_venue_def open_position_def)

theorem monitor_closes_on_missing_stop_witness:
  "fst (check_position_status test_venue (open_position ''a'') []) = Inl KeyError \<and>
   active_positions (monitor_positions test_venue two_positions) ! 0 = (''a'', open_position ''a'') \<and>
   (\<exists>pos1. active_positions (monitor_positions test_venue two_positions) ! 1 = (''b'', pos1) \<and>
      pos_status pos1 = ''CLOSED'' \<and> pos_close_reason pos1 = Some ''STOP_LOSS'' \<and>
      NotifyTradeExit ''BTCUSDT'' (Some ''SELL'') 101 110.055 3 (-27.165) StopLossReached
        \<in> set (calls (monitor_positions test_venue two_positions)) \<and>
      CancelOrder (Some ''tp1'') ''BTCUSDT'' \<in> set (calls (monitor_positions test_venue two_positions)))"
proof -
  let ?a = "open_position ''a''" and ?b = "open_position ''b''"
  let ?tr0 = "[GetCurrentPrice ''BTCUSDT'', GetOpenOrders ''BTCUSDT'']"
  have reg: "active_positions two_positions = [(''a'', ?a)] @ (''b'', ?b) # []" "calls two_positions = []"
    by (simp_all add: two_positions_def)
  have reg0: "active_positions two_positions = [] @ (''a'', ?a) # [(''b'', ?b)]"
    by (simp add: two_positions_def)
  have t0: "snd (monitor_loop test_venue [(''a'', ?a)] []) = ?tr0"
    by (simp add: first_raises)
  have sym: "pos_symbol ?b = ''BTCUSDT''" "pos_stop_order_id ?b = Some ''s1''"
    "pos_direction ?b = Some ''SELL''" "pos_entry_price ?b = 101" "pos_stop_loss ?b = 110.055"
    "pos_position_size ?b = 3" "pos_tp_orders ?b = [tp_leg ''tp1'' 100 1, tp_leg ''tp2'' 103.82 2]"
    by (simp_all add: open_position_def)
  have ids: "open_ids_at test_venue ?tr0 ''BTCUSDT'' = [''tp1'']"
    by (simp add: open_ids_at_def test_venue_def List.map_filter_simps)
  have rd: "ids_readable test_venue ?tr0 ''BTCUSDT''"
    by (simp add: ids_readable_def test_venue_def)
  have pnl: "stop_loss_pnl ?b = -27.165"
    by (simp add: stop_loss_pnl_def sym)
  have a0: "active_positions (monitor_positions test_venue two_positions) ! 0 = (''a'', ?a)"
    using monitor_closes_on_missing_stop [of test_venue two_positions "[]" "''a''" ?a "[(''b'', ?b)]" "''s1''"]
      reg0 first_raises
    by (simp add: processed_def reg(2))
  have b1: "\<exists>pos1. active_positions (monitor_positions test_venue two_positions) ! 1 = (''b'', pos1) \<and>
      pos_status pos1 = ''CLOSED'' \<and> pos_close_reason pos1 = Some ''STOP_LOSS'' \<and>
      NotifyTradeExit ''BTCUSDT'' (Some ''SELL'') 101 110.055 3 (-27.165) StopLossReached
        \<in> set (calls (monitor_positions test_venue two_positions)) \<and>
      CancelOrder (Some ''tp1'') ''BTCUSDT'' \<in> set (calls (monitor_positions test_venue two_positions))"
    using monitor_closes_on_missing_stop [of test_venue two_positions "[(''a'', ?a)]" "''b''" ?b "[]" "''s1''"]
      reg
    unfolding reg(2) t0 sym ids pnl
    using rd
    by (auto simp: mark_filled_def not_in_open_def tp_leg_def)
  show ?thesis
    using a0 b1 first_raises by simp
qed

definition mixed_registry :: pm_state where
  "mixed_registry =
     \<lparr>active_positions = [(''old_active'', open_position ''old_active''),
                          (''old_closed'', closed_position ''old_closed'' 1000),
                          (''new_closed'', closed_position ''new_closed'' 900000)],
      calls = []\<rparr>"

theorem cleanup_removes_closed_old_witness:
  "active_positions (cleanup_old_positions test_venue 7 mixed_registry) =
     [(''old_active'', open_position ''old_active''),
      (''new_closed'', closed_position ''new_closed'' 900000)] \<and>
   active_positions (cleanup_old_positions test_venue 7 (cleanup_old_positions test_venue 7 mixed_registry)) =
     active_positions (cleanup_old_positions test_venue 7 mixed_registry)"
proof -
  have d: "distinct (map fst (active_positions mixed_registry))"
    by (simp add: mixed_registry_def)
  have n: "v_now test_venue tr = 1000000" for tr
    by (simp add: test_venue_def)
  have c: "\<not> closed_before 395200 (open_position ''old_active'')"
          "closed_before 395200 (closed_position ''old_closed'' 1000)"
          "\<not> closed_before 395200 (closed_position ''new_closed'' 900000)"
    by (simp_all add: closed_before_def open_position_def closed_position_def)
  show ?thesis
    using cleanup_removes_closed_old [OF d, of test_venue 7] c
    by (simp add: n mixed_registry_def)
qed

definition full_bot :: bot_state where
  "full_bot = \<lparr>position_manager = two_positions, detected_patterns = Map.empty\<rparr>"

definition small_config :: config where
  "small_config = \<lparr>cfg_symbol = ''BTCUSDT'', cfg_max_positions = 2, cfg_risk_percentage = 1\<rparr>"

definition fired :: confirmations where
  "fired = \<lparr>candle_5m_confirmation = True, trendline_break = True, zone_break = True,
            total_score = 3, entry_signal = True, entry_direction = Some ''SELL'',
            entry_price = Some 95\<rparr>"

theorem entry_rejected_at_capacity_witness:
  "get_active_positions_count (position_manager full_bot) = 2 \<and>
   handle_entry_signal test_venue small_config falling_pattern falling_zones fired full_bot = full_bot \<and>
   calls (position_manager
     (handle_entry_signal test_venue small_config falling_pattern falling_zones fired full_bot)) = []"
proof -
  have c: "get_active_positions_count (position_manager full_bot) = 2"
    by (simp add: get_active_positions_count_def full_bot_def two_positions_def open_position_def)
  have m: "cfg_max_positions small_config = 2"
    by (simp add: small_config_def)
  have t: "calls (position_manager full_bot) = []"
    by (simp add: full_bot_def two_positions_def)
  show ?thesis
    using entry_rejected_at_capacity [of small_config full_bot test_venue falling_pattern falling_zones fired]
    by (simp add: c m t)
qed

text \<open>A bullish example: D at 90, C at 100, and the zones built from it.\<close>

definition rising_pattern :: pattern where
  "rising_pattern =
     make_pattern (pv 0 70 ''low'') (pv 0 105 ''high'') (pv 1 80 ''low'')
       (pv 1 100 ''high'') (pv 2 90 ''low'') Map.empty"

definition rising_zones :: zones where
  "rising_zones =
     \<lparr>zn_pattern_id = (''butterfly'', 2), zn_direction = Some ''bullish'',
      zn_base_price = 90, zn_target_price = 100,
      zn_fib = level_map 90 100 ''bullish'',
      zn_entry_zone = Some \<lparr>z_upper = 98.86, z_lower = 90, z_is_active = True\<rparr>,
      zn_rebound_zone = Some \<lparr>z_upper = 100, z_lower = 98.86, z_is_active = True\<rparr>\<rparr>"

lemma rising_zones_created: "create_fibonacci_zones rising_pattern = Inr rising_zones"
  unfolding create_fibonacci_zones_eq
  by (simp add: rising_pattern_def make_pattern_def pv_def level_886_def rising_zones_def Let_def)

lemma take_profits_rising:
  "calculate_take_profits rising_pattern rising_zones = [100, 96.18, 95]"
proof -
  have d: "pat_direction rising_pattern \<noteq> ''bearish''"
    by (simp add: rising_pattern_def make_pattern_def pv_def)
  show ?thesis
    using take_profits_created_bullish [OF rising_zones_created d]
    by (simp add: rising_pattern_def make_pattern_def pv_def Let_def)
qed



text \<open>Below the maximum the same signal opens a third position, so the rejection above is the
  capacity check's doing.\<close>

lemma entry_accepted_below_capacity:
  "map (\<lambda>kp. (fst kp, pos_status (snd kp))) (active_positions (position_manager
     (handle_entry_signal test_venue (small_config\<lparr>cfg_max_positions := 3\<rparr>) falling_pattern
        falling_zones fired full_bot))) =
     [(''a'', ''ACTIVE''), (''b'', ''ACTIVE''), (''butterfly_19700112_134640'', ''ACTIVE'')]"
proof -
  let ?cfg = "small_config\<lparr>cfg_max_positions := 3\<rparr>"
  have c: "get_active_positions_count two_positions = 2"
    by (simp add: get_active_positions_count_def two_positions_def open_position_def)
  have tp: "calculate_take_profits falling_pattern falling_zones = [100, 103.82, 105]"
    using take_profits_created_bearish [OF falling_zones_created]
    by (simp add: falling_pattern_def make_pattern_def pv_def Let_def)
  have ty: "pat_type falling_pattern = ''butterfly''"
    by (simp add: falling_pattern_def make_pattern_def)
  have f: "entry_signal fired" "entry_price fired = Some 95" "entry_direction fired = Some ''SELL''"
    by (simp_all add: fired_def)
  have sz: "calculate_position_size test_venue ?cfg (Some 95) sl tr =
              (3, tr @ [GetAvailableBalance ''USDT'', CalculatePositionSize ''BTCUSDT'' 10 (Some 95) sl])" for sl tr
    by (simp add: calculate_position_size_def test_venue_def small_config_def Let_def)
  have tv: "v_place_market_order test_venue tr symbol side amount = Some \<lparr>o_id = Some ''m1''\<rparr>"
     "v_place_limit_order test_venue tr symbol side amount price = Some \<lparr>o_id = Some ''l1''\<rparr>"
     "v_place_stop_loss_order test_venue tr symbol side amount price = Some \<lparr>o_id = Some ''s1''\<rparr>"
     "v_now test_venue tr = 1000000" "v_strftime test_venue t = ''19700112_134640''"
     "cfg_symbol ?cfg = ''BTCUSDT''"
    for tr symbol side amount price t
    by (simp_all add: test_venue_def small_config_def)
  have e: "fst (execute_entry_signal test_venue ?cfg falling_pattern falling_zones fired two_positions) = True \<and>
           map (\<lambda>kp. (fst kp, pos_status (snd kp))) (active_positions (snd (execute_entry_signal test_venue
              ?cfg falling_pattern falling_zones fired two_positions)))
             = [(''a'', ''ACTIVE''), (''b'', ''ACTIVE''), (''butterfly_19700112_134640'', ''ACTIVE'')]"
    unfolding execute_entry_signal_def Let_def tp f
    by (simp add: f sz tv ty place_stop_loss_def place_take_profits_def two_positions_def
          open_position_def Let_def case_prod_beta)
  have m: "cfg_max_positions ?cfg = 3"
    by simp
  have pm: "position_manager full_bot = two_positions"
    by (simp add: full_bot_def)
  show ?thesis
    unfolding handle_entry_signal_def Let_def pm c m
    using e by (simp add: case_prod_beta)
qed

end
